theory Spec2Isabelle
  imports Complex_Main
begin

section \<open>JavaScript numbers and values\<close>

text \<open>
  A JavaScript number is a finite value, \<open>NaN\<close>, \<open>Infinity\<close> or \<open>-Infinity\<close>. Finite
  values are modelled as reals: rounding and overflow of doubles are outside the model, and
  zero carries no sign (a division by zero takes the zero as \<open>+0\<close>). The operations
  below follow the IEEE rules the scripts rely on: \<open>NaN\<close> is absorbing, every comparison
  with \<open>NaN\<close> is false.
\<close>

datatype jsnum = Fin real | NaN | PosInf | NegInf

datatype jsval = JNum jsnum | JUndefined | JNull | JBool bool | JStr string

fun typeof :: "jsval \<Rightarrow> string" where
  "typeof (JNum _) = ''number''"
| "typeof JUndefined = ''undefined''"
| "typeof JNull = ''object''"
| "typeof (JBool _) = ''boolean''"
| "typeof (JStr _) = ''string''"

text \<open>The number held by a value whose \<open>typeof\<close> is \<open>number\<close>; the scripts read it only
  behind that test.\<close>

fun the_num :: "jsval \<Rightarrow> jsnum" where
  "the_num (JNum n) = n"
| "the_num _ = NaN"

fun isFinite :: "jsnum \<Rightarrow> bool" where
  "isFinite (Fin _) = True"
| "isFinite _ = False"

fun inf_of_sign :: "real \<Rightarrow> jsnum" where
  "inf_of_sign s = (if s > 0 then PosInf else if s < 0 then NegInf else NaN)"

fun jneg :: "jsnum \<Rightarrow> jsnum" where
  "jneg (Fin a) = Fin (- a)"
| "jneg NaN = NaN"
| "jneg PosInf = NegInf"
| "jneg NegInf = PosInf"

fun jadd :: "jsnum \<Rightarrow> jsnum \<Rightarrow> jsnum" where
  "jadd (Fin a) (Fin b) = Fin (a + b)"
| "jadd NaN _ = NaN"
| "jadd _ NaN = NaN"
| "jadd PosInf NegInf = NaN"
| "jadd NegInf PosInf = NaN"
| "jadd PosInf _ = PosInf"
| "jadd _ PosInf = PosInf"
| "jadd NegInf _ = NegInf"
| "jadd _ NegInf = NegInf"

fun jsub :: "jsnum \<Rightarrow> jsnum \<Rightarrow> jsnum" where
  "jsub a b = jadd a (jneg b)"

fun jmul :: "jsnum \<Rightarrow> jsnum \<Rightarrow> jsnum" where
  "jmul (Fin a) (Fin b) = Fin (a * b)"
| "jmul NaN _ = NaN"
| "jmul _ NaN = NaN"
| "jmul (Fin a) PosInf = inf_of_sign a"
| "jmul (Fin a) NegInf = inf_of_sign (- a)"
| "jmul PosInf (Fin b) = inf_of_sign b"
| "jmul NegInf (Fin b) = inf_of_sign (- b)"
| "jmul PosInf PosInf = PosInf"
| "jmul NegInf NegInf = PosInf"
| "jmul PosInf NegInf = NegInf"
| "jmul NegInf PosInf = NegInf"

fun jdiv :: "jsnum \<Rightarrow> jsnum \<Rightarrow> jsnum" where
  "jdiv (Fin a) (Fin b) = (if b = 0 then inf_of_sign a else Fin (a / b))"
| "jdiv NaN _ = NaN"
| "jdiv _ NaN = NaN"
| "jdiv (Fin a) PosInf = Fin 0"
| "jdiv (Fin a) NegInf = Fin 0"
| "jdiv PosInf (Fin b) = (if b \<ge> 0 then PosInf else NegInf)"
| "jdiv NegInf (Fin b) = (if b \<ge> 0 then NegInf else PosInf)"
| "jdiv PosInf PosInf = NaN"
| "jdiv PosInf NegInf = NaN"
| "jdiv NegInf PosInf = NaN"
| "jdiv NegInf NegInf = NaN"

fun jlt :: "jsnum \<Rightarrow> jsnum \<Rightarrow> bool" where
  "jlt (Fin a) (Fin b) = (a < b)"
| "jlt NaN _ = False"
| "jlt _ NaN = False"
| "jlt PosInf _ = False"
| "jlt _ NegInf = False"
| "jlt _ PosInf = True"
| "jlt NegInf _ = True"

fun jle :: "jsnum \<Rightarrow> jsnum \<Rightarrow> bool" where
  "jle (Fin a) (Fin b) = (a \<le> b)"
| "jle NaN _ = False"
| "jle _ NaN = False"
| "jle _ PosInf = True"
| "jle NegInf _ = True"
| "jle PosInf _ = False"
| "jle _ NegInf = False"

text \<open>The operators of the scripts, written as in the source: \<open>a + b\<close>, \<open>a - b\<close>,
  \<open>- a\<close>, \<open>a * b\<close>, \<open>a / b\<close>, \<open>a < b\<close> and \<open>a \<le> b\<close> on \<open>jsnum\<close>
  (\<open>a > b\<close> is \<open>b < a\<close>, \<open>a >= b\<close> is \<open>b \<le> a\<close>). A literal is written \<open>Fin 0.5\<close>.\<close>

instantiation jsnum :: "{plus, minus, uminus, times, inverse, ord}"
begin

definition plus_jsnum :: "jsnum \<Rightarrow> jsnum \<Rightarrow> jsnum" where
  "plus_jsnum = jadd"

definition minus_jsnum :: "jsnum \<Rightarrow> jsnum \<Rightarrow> jsnum" where
  "minus_jsnum = jsub"

definition uminus_jsnum :: "jsnum \<Rightarrow> jsnum" where
  "uminus_jsnum = jneg"

definition times_jsnum :: "jsnum \<Rightarrow> jsnum \<Rightarrow> jsnum" where
  "times_jsnum = jmul"

definition divide_jsnum :: "jsnum \<Rightarrow> jsnum \<Rightarrow> jsnum" where
  "divide_jsnum = jdiv"

definition inverse_jsnum :: "jsnum \<Rightarrow> jsnum" where
  "inverse_jsnum = jdiv (Fin 1)"

definition less_jsnum :: "jsnum \<Rightarrow> jsnum \<Rightarrow> bool" where
  "less_jsnum = jlt"

definition less_eq_jsnum :: "jsnum \<Rightarrow> jsnum \<Rightarrow> bool" where
  "less_eq_jsnum = jle"

instance ..

end

text \<open>\<open>Math.sqrt\<close>, \<open>Math.sin\<close>, \<open>Math.cos\<close>, \<open>Math.min\<close>, \<open>Math.max\<close> and
  \<open>Math.pow\<close> with a natural exponent.\<close>

fun jsqrt :: "jsnum \<Rightarrow> jsnum" where
  "jsqrt (Fin a) = (if a < 0 then NaN else Fin (sqrt a))"
| "jsqrt PosInf = PosInf"
| "jsqrt _ = NaN"

fun jsin :: "jsnum \<Rightarrow> jsnum" where
  "jsin (Fin a) = Fin (sin a)"
| "jsin _ = NaN"

fun jcos :: "jsnum \<Rightarrow> jsnum" where
  "jcos (Fin a) = Fin (cos a)"
| "jcos _ = NaN"

definition jmin :: "jsnum \<Rightarrow> jsnum \<Rightarrow> jsnum" where
  "jmin a b = (if a = NaN \<or> b = NaN then NaN else if a \<le> b then a else b)"

definition jmax :: "jsnum \<Rightarrow> jsnum \<Rightarrow> jsnum" where
  "jmax a b = (if a = NaN \<or> b = NaN then NaN else if a \<le> b then b else a)"

fun jpow :: "jsnum \<Rightarrow> nat \<Rightarrow> jsnum" where
  "jpow a 0 = Fin 1"
| "jpow a (Suc n) = a * jpow a n"

section \<open>CursorTracker (cursor-system.js)\<close>

text \<open>\<open>window.innerWidth\<close> and \<open>window.innerHeight\<close>; the tracker also runs without a
  window (under Node), which is \<open>None\<close>.\<close>

record window =
  innerWidth :: real
  innerHeight :: real

record vec2 =
  vec_x :: jsnum
  vec_y :: jsnum

text \<open>The object stored in \<open>lastValidState\<close>.\<close>

record validState =
  vs_x :: jsnum
  vs_y :: jsnum
  vs_previousX :: jsnum
  vs_previousY :: jsnum
  vs_velocity :: vec2
  vs_timestamp :: real
  vs_version :: int

record tracker =
  mouseX :: jsnum
  mouseY :: jsnum
  previousX :: jsnum
  previousY :: jsnum
  isTracking :: bool
  isInitialized :: bool
  velocity :: vec2
  lastUpdateTime :: real
  stateVersion :: int
  lastValidState :: "validState option"

text \<open>The constructor.\<close>

definition CursorTracker :: tracker where
  "CursorTracker =
     \<lparr> mouseX = Fin 0, mouseY = Fin 0, previousX = Fin 0, previousY = Fin 0,
       isTracking = True, isInitialized = False,
       velocity = \<lparr> vec_x = Fin 0, vec_y = Fin 0 \<rparr>,
       lastUpdateTime = 0, stateVersion = 0, lastValidState = None \<rparr>"

definition maxWidth :: "window option \<Rightarrow> real" where
  "maxWidth w = (case w of Some d \<Rightarrow> innerWidth d * 2 | None \<Rightarrow> 10000)"

definition maxHeight :: "window option \<Rightarrow> real" where
  "maxHeight w = (case w of Some d \<Rightarrow> innerHeight d * 2 | None \<Rightarrow> 10000)"

definition isValidPosition :: "window option \<Rightarrow> jsval \<Rightarrow> jsval \<Rightarrow> bool" where
  "isValidPosition w x y =
     (typeof x = ''number'' \<and>
      typeof y = ''number'' \<and>
      isFinite (the_num x) \<and>
      isFinite (the_num y) \<and>
      Fin 0 \<le> the_num x \<and>
      Fin 0 \<le> the_num y \<and>
      the_num x \<le> Fin (maxWidth w) \<and>
      the_num y \<le> Fin (maxHeight w))"

text \<open>\<open>updatePosition(x, y)\<close>; \<open>currentTime\<close> is what \<open>performance.now()\<close> returns during
  the call. The result is the returned flag and the tracker after the call.\<close>

definition updatePosition ::
  "window option \<Rightarrow> real \<Rightarrow> jsval \<Rightarrow> jsval \<Rightarrow> tracker \<Rightarrow> bool \<times> tracker" where
  "updatePosition w currentTime x y t =
     (if \<not> isTracking t then (False, t)
      else if \<not> isValidPosition w x y then (False, t)
      else
        let t1 = t\<lparr> previousX := mouseX t, previousY := mouseY t \<rparr>;
            t2 = (if lastUpdateTime t1 > 0 then
                    (let deltaTime = currentTime - lastUpdateTime t1 in
                     if deltaTime > 0 then
                       t1\<lparr> velocity :=
                             \<lparr> vec_x = (the_num x - mouseX t1) / Fin deltaTime,
                               vec_y = (the_num y - mouseY t1) / Fin deltaTime \<rparr> \<rparr>
                     else t1)
                  else t1);
            t3 = t2\<lparr> mouseX := the_num x, mouseY := the_num y,
                     lastUpdateTime := currentTime,
                     stateVersion := stateVersion t2 + 1 \<rparr>;
            t4 = (if \<not> isInitialized t3 then t3\<lparr> isInitialized := True \<rparr> else t3);
            t5 = t4\<lparr> lastValidState := Some
                     \<lparr> vs_x = mouseX t4, vs_y = mouseY t4,
                       vs_previousX = previousX t4, vs_previousY = previousY t4,
                       vs_velocity = velocity t4,
                       vs_timestamp = currentTime,
                       vs_version = stateVersion t4 \<rparr> \<rparr>
        in (True, t5))"

text \<open>\<open>getCurrentPosition()\<close> and \<open>createStateSnapshot()\<close> are methods of the tracker
  object: each returns its result together with the tracker it leaves behind.\<close>

record currentPosition =
  cp_x :: jsnum
  cp_y :: jsnum
  cp_isValid :: bool

definition getCurrentPosition :: "window option \<Rightarrow> tracker \<Rightarrow> currentPosition \<times> tracker" where
  "getCurrentPosition w t =
     (\<lparr> cp_x = mouseX t, cp_y = mouseY t,
        cp_isValid = (isInitialized t \<and> isValidPosition w (JNum (mouseX t)) (JNum (mouseY t))) \<rparr>,
      t)"

record snapshotMetadata =
  md_isTracking :: bool
  md_isInitialized :: bool
  md_stateVersion :: int
  md_timestamp :: real

record stateSnapshot =
  ss_position :: vec2
  ss_previous :: vec2
  ss_velocity :: vec2
  ss_metadata :: snapshotMetadata

definition createStateSnapshot :: "tracker \<Rightarrow> stateSnapshot \<times> tracker" where
  "createStateSnapshot t =
     (\<lparr> ss_position = \<lparr> vec_x = mouseX t, vec_y = mouseY t \<rparr>,
        ss_previous = \<lparr> vec_x = previousX t, vec_y = previousY t \<rparr>,
        ss_velocity = velocity t,
        ss_metadata = \<lparr> md_isTracking = isTracking t, md_isInitialized = isInitialized t,
                        md_stateVersion = stateVersion t, md_timestamp = lastUpdateTime t \<rparr> \<rparr>,
      t)"

definition resetToOrigin :: "tracker \<Rightarrow> tracker" where
  "resetToOrigin t =
     t\<lparr> mouseX := Fin 0, mouseY := Fin 0, previousX := Fin 0, previousY := Fin 0,
        velocity := \<lparr> vec_x = Fin 0, vec_y = Fin 0 \<rparr>,
        isInitialized := False, stateVersion := 0, lastUpdateTime := 0,
        lastValidState := None \<rparr>"

text \<open>\<open>recoverState()\<close>; \<open>now\<close> is what \<open>performance.now()\<close> returns during the call.\<close>

definition recoverState :: "real \<Rightarrow> tracker \<Rightarrow> bool \<times> tracker" where
  "recoverState now t =
     (case lastValidState t of
        None \<Rightarrow> (False, resetToOrigin t)
      | Some s \<Rightarrow>
          (True, t\<lparr> mouseX := vs_x s, mouseY := vs_y s,
                    previousX := vs_previousX s, previousY := vs_previousY s,
                    velocity := vs_velocity s,
                    stateVersion := vs_version s + 1,
                    lastUpdateTime := now \<rparr>))"

definition setTracking :: "bool \<Rightarrow> tracker \<Rightarrow> bool \<times> tracker" where
  "setTracking enabled t = (enabled, t\<lparr> isTracking := enabled \<rparr>)"

definition getMovementDistance :: "tracker \<Rightarrow> jsnum" where
  "getMovementDistance t =
     (if \<not> isInitialized t then Fin 0
      else
        let dx = mouseX t - previousX t;
            dy = mouseY t - previousY t
        in jsqrt (dx * dx + dy * dy))"

text \<open>Sequences of tracker operations: an update (with the window and the clock of the
  call), a recovery, a reset and a change of the tracking flag.\<close>

datatype tracker_op =
    Update "window option" real jsval jsval
  | Recover real
  | Reset
  | SetTracking bool

fun apply_op :: "tracker_op \<Rightarrow> tracker \<Rightarrow> tracker" where
  "apply_op (Update w now x y) t = snd (updatePosition w now x y t)"
| "apply_op (Recover now) t = snd (recoverState now t)"
| "apply_op Reset t = resetToOrigin t"
| "apply_op (SetTracking b) t = snd (setTracking b t)"

fun run_ops :: "tracker_op list \<Rightarrow> tracker \<Rightarrow> tracker" where
  "run_ops [] t = t"
| "run_ops (op # ops) t = run_ops ops (apply_op op t)"

text \<open>An operation that sets the tracker back to the origin: \<open>resetToOrigin\<close>, and
  \<open>recoverState\<close> when there is no snapshot to recover from.\<close>

fun resets :: "tracker_op \<Rightarrow> tracker \<Rightarrow> bool" where
  "resets Reset t = True"
| "resets (Recover now) t = (lastValidState t = None)"
| "resets _ t = False"

text \<open>No update of the sequence is accepted.\<close>

fun accepts_none :: "tracker_op list \<Rightarrow> tracker \<Rightarrow> bool" where
  "accepts_none [] t = True"
| "accepts_none (Update w now x y # ops) t =
     (\<not> fst (updatePosition w now x y t) \<and> accepts_none ops (apply_op (Update w now x y) t))"
| "accepts_none (op # ops) t = accepts_none ops (apply_op op t)"

text \<open>What every tracker reached from the constructor satisfies: the positions are finite
  numbers; without a snapshot the current position is the origin; with one, the current
  position is the snapshot's and the version counter is the snapshot's version or one
  more.\<close>

definition tracker_inv :: "tracker \<Rightarrow> bool" where
  "tracker_inv t =
     (isFinite (mouseX t) \<and> isFinite (mouseY t) \<and>
      isFinite (previousX t) \<and> isFinite (previousY t) \<and>
      (case lastValidState t of
         None \<Rightarrow> mouseX t = Fin 0 \<and> mouseY t = Fin 0
       | Some s \<Rightarrow>
           mouseX t = vs_x s \<and> mouseY t = vs_y s \<and>
           vs_version s \<le> stateVersion t \<and> stateVersion t \<le> vs_version s + 1 \<and>
           isFinite (vs_x s) \<and> isFinite (vs_y s) \<and>
           isFinite (vs_previousX s) \<and> isFinite (vs_previousY s)))"


section \<open>Shared helpers of the effect systems\<close>

text \<open>
  \<open>Math.random()\<close>: a call that draws random numbers takes the values \<open>Math.random()\<close>
  returns during the call, \<open>r 0\<close>, \<open>r 1\<close>, ... in the order the source draws them
  (the properties of an object literal are evaluated in the order they are written).
  The clocks \<open>Date.now()\<close> and \<open>performance.now()\<close> are arguments in the same way.
\<close>

type_synonym rnd = "nat \<Rightarrow> real"

definition drop_rnd :: "nat \<Rightarrow> rnd \<Rightarrow> rnd" where
  "drop_rnd n r = (\<lambda>k. r (n + k))"

text \<open>A property that may be undefined; in arithmetic \<open>undefined\<close> is \<open>NaN\<close>.\<close>

fun numOf :: "jsnum option \<Rightarrow> jsnum" where
  "numOf (Some n) = n"
| "numOf None = NaN"

text \<open>\<open>s.includes(sub)\<close>.\<close>

fun js_includes :: "string \<Rightarrow> string \<Rightarrow> bool" where
  "js_includes [] sub = (sub = [])"
| "js_includes (c # cs) sub = (take (length sub) (c # cs) = sub \<or> js_includes cs sub)"

text \<open>\<open>colors[Math.floor(r * colors.length)]\<close>; a read out of range is \<open>undefined\<close>.\<close>

definition pick :: "string list \<Rightarrow> real \<Rightarrow> string option" where
  "pick colors r =
     (let i = \<lfloor>r * real (length colors)\<rfloor>
      in if 0 \<le> i \<and> nat i < length colors then Some (colors ! nat i) else None)"

section \<open>MagicalEffectsSystem (magical-effects.js)\<close>

text \<open>An effect object. The first twelve properties are set by every emitter; the others
  are set by some and are \<open>undefined\<close> (\<open>None\<close>) otherwise.\<close>

record effect =
  ef_x :: jsnum
  ef_y :: jsnum
  ef_vx :: jsnum
  ef_vy :: jsnum
  ef_size :: jsnum
  ef_color :: "string option"
  ef_opacity :: jsnum
  ef_life :: jsnum
  ef_maxLife :: jsnum
  ef_type :: string
  ef_rotation :: jsnum
  ef_rotationSpeed :: jsnum
  ef_targetX :: "jsnum option"
  ef_targetY :: "jsnum option"
  ef_initialSize :: "jsnum option"
  ef_pulsePhase :: "jsnum option"
  ef_bouncePhase :: "jsnum option"
  ef_floatSpeed :: "jsnum option"
  ef_sparklePhase :: "jsnum option"
  ef_twinkleSpeed :: "jsnum option"
  ef_maxSize :: "jsnum option"
  ef_twinkle :: "jsnum option"
  ef_pulseCount :: "jsnum option"
  ef_floatPhase :: "jsnum option"

text \<open>The object with no property set; every emitter overwrites the first twelve.\<close>

definition empty_effect :: effect where
  "empty_effect =
     \<lparr> ef_x = NaN, ef_y = NaN, ef_vx = NaN, ef_vy = NaN, ef_size = NaN, ef_color = None,
       ef_opacity = NaN, ef_life = NaN, ef_maxLife = NaN, ef_type = [],
       ef_rotation = NaN, ef_rotationSpeed = NaN,
       ef_targetX = None, ef_targetY = None, ef_initialSize = None, ef_pulsePhase = None,
       ef_bouncePhase = None, ef_floatSpeed = None, ef_sparklePhase = None,
       ef_twinkleSpeed = None, ef_maxSize = None, ef_twinkle = None, ef_pulseCount = None,
       ef_floatPhase = None \<rparr>"

text \<open>The fields of the system that the emitters and the frame loop read and write (the
  canvas and the animation handle belong to the renderer).\<close>

record magicalEffectsSystem =
  mes_effects :: "effect list"
  mes_isInitialized :: bool
  mes_reducedMotion :: bool
  mes_mouseX :: jsnum
  mes_mouseY :: jsnum
  mes_lastMouseTime :: real

text \<open>The constructor, with the reduced-motion preference at that moment; \<open>init\<close> leaves
  the effect list empty.\<close>

definition MagicalEffectsSystem :: "bool \<Rightarrow> magicalEffectsSystem" where
  "MagicalEffectsSystem reduced =
     \<lparr> mes_effects = [], mes_isInitialized = True, mes_reducedMotion = reduced,
       mes_mouseX = Fin 0, mes_mouseY = Fin 0, mes_lastMouseTime = 0 \<rparr>"

definition bubbleTrailColors :: "string list" where
  "bubbleTrailColors =
     [''rgba(88, 28, 135, 0.9)'', ''rgba(30, 58, 138, 0.9)'', ''rgba(59, 130, 246, 0.9)'',
      ''rgba(67, 56, 202, 0.9)'', ''rgba(37, 99, 235, 0.9)'', ''rgba(147, 51, 234, 0.9)'']"

text \<open>The three object literals of \<open>createMagicalTrail\<close>.\<close>

definition trailBubble :: "jsnum \<Rightarrow> jsnum \<Rightarrow> rnd \<Rightarrow> effect" where
  "trailBubble x y r =
     (let bubbleSize = r 0 * 8 + 4;
          offsetX = (r 1 - 0.5) * 25;
          offsetY = (r 2 - 0.5) * 25
      in empty_effect\<lparr>
           ef_x := x + Fin offsetX,
           ef_y := y + Fin offsetY,
           ef_vx := Fin ((r 3 - 0.5) * 0.8),
           ef_vy := Fin ((r 4 - 0.5) * 0.8 - 0.8),
           ef_size := Fin bubbleSize,
           ef_color := pick bubbleTrailColors (r 5),
           ef_opacity := Fin 1.0,
           ef_life := Fin 1,
           ef_maxLife := Fin (r 6 * 60 + 40),
           ef_type := ''trail-bubble'',
           ef_rotation := Fin (r 7 * pi * 2),
           ef_rotationSpeed := Fin ((r 8 - 0.5) * 0.05),
           ef_initialSize := Some (Fin bubbleSize),
           ef_pulsePhase := Some (Fin (r 9 * pi * 2)),
           ef_floatSpeed := Some (Fin (r 10 * 0.03 + 0.02)),
           ef_sparklePhase := Some (Fin (r 11 * pi * 2)) \<rparr>)"

definition trailSparkle :: "jsnum \<Rightarrow> jsnum \<Rightarrow> rnd \<Rightarrow> effect" where
  "trailSparkle x y r =
     empty_effect\<lparr>
       ef_x := x + Fin ((r 0 - 0.5) * 20),
       ef_y := y + Fin ((r 1 - 0.5) * 20),
       ef_vx := Fin ((r 2 - 0.5) * 0.5),
       ef_vy := Fin ((r 3 - 0.5) * 0.5 - 0.6),
       ef_size := Fin (r 4 * 4 + 2),
       ef_color := pick bubbleTrailColors (r 5),
       ef_opacity := Fin 0.9,
       ef_life := Fin 1,
       ef_maxLife := Fin (r 6 * 40 + 30),
       ef_type := ''trail-sparkle'',
       ef_rotation := Fin (r 7 * pi * 2),
       ef_rotationSpeed := Fin ((r 8 - 0.5) * 0.1),
       ef_twinkleSpeed := Some (Fin (r 9 * 0.2 + 0.1)) \<rparr>"

definition trailBubbleLarge :: "jsnum \<Rightarrow> jsnum \<Rightarrow> rnd \<Rightarrow> effect" where
  "trailBubbleLarge x y r =
     (let largeBubbleSize = r 0 * 12 + 10
      in empty_effect\<lparr>
           ef_x := x + Fin ((r 1 - 0.5) * 15),
           ef_y := y + Fin ((r 2 - 0.5) * 15),
           ef_vx := Fin ((r 3 - 0.5) * 0.4),
           ef_vy := Fin ((r 4 - 0.5) * 0.4 - 1.0),
           ef_size := Fin largeBubbleSize,
           ef_color := pick bubbleTrailColors (r 5),
           ef_opacity := Fin 0.9,
           ef_life := Fin 1,
           ef_maxLife := Fin (r 6 * 80 + 60),
           ef_type := ''trail-bubble-large'',
           ef_rotation := Fin 0,
           ef_rotationSpeed := Fin ((r 7 - 0.5) * 0.03),
           ef_initialSize := Some (Fin largeBubbleSize),
           ef_pulsePhase := Some (Fin (r 8 * pi * 2)),
           ef_floatSpeed := Some (Fin (r 9 * 0.02 + 0.01)),
           ef_bouncePhase := Some (Fin (r 10 * pi * 2)) \<rparr>)"

text \<open>\<open>createMagicalTrail(x, y)\<close>; \<open>now\<close> is \<open>Date.now()\<close>. The four bubbles draw twelve
  numbers each, the two sparkles ten each, then one decides on the large bubble.\<close>

definition createMagicalTrail ::
  "real \<Rightarrow> rnd \<Rightarrow> jsnum \<Rightarrow> jsnum \<Rightarrow> magicalEffectsSystem \<Rightarrow> magicalEffectsSystem" where
  "createMagicalTrail now r x y s =
     (if mes_reducedMotion s then s
      else if now - mes_lastMouseTime s < 40 then s
      else
        let s1 = s\<lparr> mes_lastMouseTime := now \<rparr>;
            bubbles = map (\<lambda>i. trailBubble x y (drop_rnd (12 * i) r)) [0..<4];
            sparkles = map (\<lambda>i. trailSparkle x y (drop_rnd (48 + 10 * i) r)) [0..<2];
            large = (if r 68 < 0.4 then [trailBubbleLarge x y (drop_rnd 69 r)] else [])
        in s1\<lparr> mes_effects := mes_effects s1 @ bubbles @ sparkles @ large \<rparr>)"

definition bubbleColors :: "string list" where
  "bubbleColors =
     [''rgba(88, 28, 135, 0.9)'', ''rgba(30, 58, 138, 0.9)'', ''rgba(59, 130, 246, 0.9)'',
      ''rgba(67, 56, 202, 0.9)'', ''rgba(37, 99, 235, 0.9)'', ''rgba(147, 51, 234, 0.9)'']"

text \<open>The three object literals of \<open>createClickEffect\<close>: the \<open>i\<close>-th bubble of the ring, the
  expanding ring and the central glow.\<close>

definition clickBubble :: "jsnum \<Rightarrow> jsnum \<Rightarrow> nat \<Rightarrow> rnd \<Rightarrow> effect" where
  "clickBubble x y i r =
     (let angle = (real i / 6) * pi * 2;
          distance = 35 + r 0 * 15;
          bubbleSize = 10 + r 1 * 6
      in empty_effect\<lparr>
           ef_x := x,
           ef_y := y,
           ef_vx := Fin (cos angle * 2.5),
           ef_vy := Fin (sin angle * 2.5),
           ef_targetX := Some (x + Fin (cos angle * distance)),
           ef_targetY := Some (y + Fin (sin angle * distance)),
           ef_size := Fin bubbleSize,
           ef_color := Some (bubbleColors ! (i mod length bubbleColors)),
           ef_opacity := Fin 1,
           ef_life := Fin 1,
           ef_maxLife := Fin 30,
           ef_type := ''bubble-click'',
           ef_rotation := Fin angle,
           ef_rotationSpeed := Fin ((r 2 - 0.5) * 0.08),
           ef_initialSize := Some (Fin bubbleSize),
           ef_pulsePhase := Some (Fin (r 3 * pi * 2)),
           ef_bouncePhase := Some (Fin 0) \<rparr>)"

definition clickRing :: "jsnum \<Rightarrow> jsnum \<Rightarrow> effect" where
  "clickRing x y =
     empty_effect\<lparr>
       ef_x := x,
       ef_y := y,
       ef_vx := Fin 0,
       ef_vy := Fin 0,
       ef_size := Fin 5,
       ef_color := Some ''rgba(59, 130, 246, 0.7)'',
       ef_opacity := Fin 1,
       ef_life := Fin 1,
       ef_maxLife := Fin 25,
       ef_type := ''expanding-ring-click'',
       ef_rotation := Fin 0,
       ef_rotationSpeed := Fin 0.1,
       ef_maxSize := Some (Fin 70) \<rparr>"

definition clickGlow :: "jsnum \<Rightarrow> jsnum \<Rightarrow> effect" where
  "clickGlow x y =
     empty_effect\<lparr>
       ef_x := x,
       ef_y := y,
       ef_vx := Fin 0,
       ef_vy := Fin 0,
       ef_size := Fin 12,
       ef_color := Some ''rgba(147, 51, 234, 0.5)'',
       ef_opacity := Fin 1,
       ef_life := Fin 1,
       ef_maxLife := Fin 20,
       ef_type := ''glow-click'',
       ef_rotation := Fin 0,
       ef_rotationSpeed := Fin 0,
       ef_pulsePhase := Some (Fin 0) \<rparr>"

text \<open>\<open>createClickEffect(x, y)\<close>: the effects whose type includes \<open>-click\<close> are removed
  first; each bubble of the ring draws four numbers.\<close>

definition createClickEffect ::
  "rnd \<Rightarrow> jsnum \<Rightarrow> jsnum \<Rightarrow> magicalEffectsSystem \<Rightarrow> magicalEffectsSystem" where
  "createClickEffect r x y s =
     (if mes_reducedMotion s then s
      else
        let s1 = s\<lparr> mes_effects :=
                     filter (\<lambda>effect. \<not> js_includes (ef_type effect) ''-click'') (mes_effects s) \<rparr>;
            ring = map (\<lambda>i. clickBubble x y i (drop_rnd (4 * i) r)) [0..<6]
        in s1\<lparr> mes_effects := mes_effects s1 @ ring @ [clickRing x y] @ [clickGlow x y] \<rparr>)"

text \<open>\<open>element.getBoundingClientRect()\<close>.\<close>

record domRect =
  rect_left :: real
  rect_top :: real
  rect_width :: real
  rect_height :: real

definition hoverSparkle :: "domRect \<Rightarrow> nat \<Rightarrow> rnd \<Rightarrow> effect" where
  "hoverSparkle rect i r =
     (let centerX = rect_left rect + rect_width rect / 2;
          centerY = rect_top rect + rect_height rect / 2;
          angle = (real i / 6) * pi * 2;
          radius = max (rect_width rect) (rect_height rect) / 2 + 20
      in empty_effect\<lparr>
           ef_x := Fin (centerX + cos angle * radius),
           ef_y := Fin (centerY + sin angle * radius),
           ef_vx := Fin (cos angle * 0.5),
           ef_vy := Fin (sin angle * 0.5),
           ef_size := Fin (r 0 * 4 + 2),
           ef_color := Some ''rgba(255, 255, 255, 0.7)'',
           ef_opacity := Fin 0.8,
           ef_life := Fin 1,
           ef_maxLife := Fin 30,
           ef_type := ''sparkle'',
           ef_rotation := Fin angle,
           ef_rotationSpeed := Fin 0.1 \<rparr>)"

definition createHoverEffect ::
  "rnd \<Rightarrow> domRect \<Rightarrow> magicalEffectsSystem \<Rightarrow> magicalEffectsSystem" where
  "createHoverEffect r rect s =
     (if mes_reducedMotion s then s
      else s\<lparr> mes_effects :=
                mes_effects s @ map (\<lambda>i. hoverSparkle rect i (drop_rnd i r)) [0..<6] \<rparr>)"

definition createAmbientSparkle ::
  "window \<Rightarrow> rnd \<Rightarrow> magicalEffectsSystem \<Rightarrow> magicalEffectsSystem" where
  "createAmbientSparkle win r s =
     (if mes_reducedMotion s then s
      else
        let x = r 0 * innerWidth win;
            y = r 1 * innerHeight win
        in s\<lparr> mes_effects := mes_effects s @
              [empty_effect\<lparr>
                 ef_x := Fin x,
                 ef_y := Fin y,
                 ef_vx := Fin ((r 2 - 0.5) * 0.3),
                 ef_vy := Fin ((r 3 - 0.5) * 0.3),
                 ef_size := Fin (r 4 * 3 + 1),
                 ef_color := Some ''rgba(255, 255, 255, 0.4)'',
                 ef_opacity := Fin 0.6,
                 ef_life := Fin 1,
                 ef_maxLife := Fin (r 5 * 120 + 60),
                 ef_type := ''ambient'',
                 ef_rotation := Fin (r 6 * pi * 2),
                 ef_rotationSpeed := Fin ((r 7 - 0.5) * 0.02),
                 ef_twinkle := Some (Fin (r 8 * pi * 2)),
                 ef_twinkleSpeed := Some (Fin (r 9 * 0.03 + 0.01)) \<rparr>] \<rparr>)"

text \<open>The callback that \<open>startAmbientSparkles\<close> hands to \<open>setInterval\<close>.\<close>

definition ambientInterval ::
  "window \<Rightarrow> rnd \<Rightarrow> magicalEffectsSystem \<Rightarrow> magicalEffectsSystem" where
  "ambientInterval win r s =
     (if length (mes_effects s) < 50 then createAmbientSparkle win r s else s)"

text \<open>The listeners of \<open>bindEvents\<close>: mouse movement, click, and a change of the
  reduced-motion preference (\<open>e.matches\<close>).\<close>

definition onMouseMove ::
  "real \<Rightarrow> rnd \<Rightarrow> jsnum \<Rightarrow> jsnum \<Rightarrow> magicalEffectsSystem \<Rightarrow> magicalEffectsSystem" where
  "onMouseMove now r clientX clientY s =
     createMagicalTrail now r clientX clientY (s\<lparr> mes_mouseX := clientX, mes_mouseY := clientY \<rparr>)"

definition onClick ::
  "rnd \<Rightarrow> jsnum \<Rightarrow> jsnum \<Rightarrow> magicalEffectsSystem \<Rightarrow> magicalEffectsSystem" where
  "onClick r clientX clientY s = createClickEffect r clientX clientY s"

definition onMotionChange :: "bool \<Rightarrow> magicalEffectsSystem \<Rightarrow> magicalEffectsSystem" where
  "onMotionChange matches s =
     (let s1 = s\<lparr> mes_reducedMotion := matches \<rparr>
      in if mes_reducedMotion s1 then s1\<lparr> mes_effects := [] \<rparr> else s1)"

subsection \<open>The per-frame updater\<close>

text \<open>The branches of \<open>updateEffect\<close>, one per effect type, in the order of the source.\<close>

definition update_bubble_click :: "effect \<Rightarrow> effect" where
  "update_bubble_click e0 =
     (let e1 = e0\<lparr> ef_bouncePhase := Some (numOf (ef_bouncePhase e0) + Fin 0.15) \<rparr>;
          bounce = jsin (numOf (ef_bouncePhase e1)) * Fin 0.3 * ef_life e1;
          e2 = e1\<lparr> ef_x := ef_x e1 + (numOf (ef_targetX e1) - ef_x e1) * Fin 0.08 \<rparr>;
          e3 = e2\<lparr> ef_y := ef_y e2 + (numOf (ef_targetY e2) - ef_y e2) * Fin 0.08 + bounce \<rparr>;
          e4 = e3\<lparr> ef_pulsePhase := Some (numOf (ef_pulsePhase e3) + Fin 0.2) \<rparr>;
          pulse = jsin (numOf (ef_pulsePhase e4)) * Fin 0.3 + Fin 1;
          e5 = e4\<lparr> ef_size :=
                     numOf (ef_initialSize e4) * pulse * (Fin 0.5 + ef_life e4 * Fin 0.5) \<rparr>
      in e5\<lparr> ef_opacity := ef_life e5 * Fin 0.95 \<rparr>)"

definition update_sparkle_bubble_click :: "effect \<Rightarrow> effect" where
  "update_sparkle_bubble_click e0 =
     (let e1 = e0\<lparr> ef_x := ef_x e0 + (numOf (ef_targetX e0) - ef_x e0) * Fin 0.06 \<rparr>;
          e2 = e1\<lparr> ef_y := ef_y e1 + (numOf (ef_targetY e1) - ef_y e1) * Fin 0.06 \<rparr>;
          e3 = e2\<lparr> ef_pulsePhase :=
                     Some (numOf (ef_pulsePhase e2) + numOf (ef_twinkleSpeed e2)) \<rparr>;
          twinkle = jsin (numOf (ef_pulsePhase e3)) * Fin 0.4 + Fin 0.6;
          e4 = e3\<lparr> ef_opacity := ef_life e3 * twinkle * Fin 0.8 \<rparr>
      in e4\<lparr> ef_size :=
               numOf (ef_initialSize e4) *
                 (Fin 0.8 + jsin (numOf (ef_pulsePhase e4) * Fin 0.5) * Fin 0.2) \<rparr>)"

definition update_expanding_ring_click :: "effect \<Rightarrow> effect" where
  "update_expanding_ring_click e0 =
     (let progress = Fin 1 - ef_life e0;
          e1 = e0\<lparr> ef_size := Fin 8 + (numOf (ef_maxSize e0) - Fin 8) * progress \<rparr>;
          e2 = e1\<lparr> ef_pulseCount := Some (numOf (ef_pulseCount e1) + Fin 0.3) \<rparr>;
          pulseWave = jsin (numOf (ef_pulseCount e2)) * Fin 0.2 + Fin 0.8;
          e3 = e2\<lparr> ef_opacity := ef_life e2 * Fin 0.7 * pulseWave \<rparr>
      in e3\<lparr> ef_rotation := ef_rotation e3 + ef_rotationSpeed e3 \<rparr>)"

definition update_glow_click :: "effect \<Rightarrow> effect" where
  "update_glow_click e0 =
     (let e1 = e0\<lparr> ef_pulsePhase := Some (numOf (ef_pulsePhase e0) + Fin 0.15) \<rparr>;
          pulse = jsin (numOf (ef_pulsePhase e1)) * Fin 0.4 + Fin 0.6;
          e2 = e1\<lparr> ef_size := Fin 15 + pulse * Fin 10 \<rparr>
      in e2\<lparr> ef_opacity := ef_life e2 * Fin 0.4 * pulse \<rparr>)"

definition update_heart_bubble_click :: "effect \<Rightarrow> effect" where
  "update_heart_bubble_click e0 =
     (let e1 = e0\<lparr> ef_floatPhase := Some (numOf (ef_floatPhase e0) + Fin 0.1) \<rparr>;
          e2 = e1\<lparr> ef_x := ef_x e1 + (numOf (ef_targetX e1) - ef_x e1) * Fin 0.04 \<rparr>;
          e3 = e2\<lparr> ef_y := ef_y e2 + (numOf (ef_targetY e2) - ef_y e2) * Fin 0.04 \<rparr>;
          e4 = e3\<lparr> ef_x := ef_x e3 + jsin (numOf (ef_floatPhase e3)) * Fin 0.5 \<rparr>;
          e5 = e4\<lparr> ef_y := ef_y e4 + jcos (numOf (ef_floatPhase e4) * Fin 0.7) * Fin 0.3 \<rparr>
      in e5\<lparr> ef_opacity := ef_life e5 * Fin 0.7 \<rparr>)"

definition update_bubble :: "effect \<Rightarrow> effect" where
  "update_bubble e0 =
     (let e1 = e0\<lparr> ef_vy := ef_vy e0 + Fin 0.02 \<rparr>;
          e2 = e1\<lparr> ef_vx := ef_vx e1 * Fin 0.98 \<rparr>;
          e3 = e2\<lparr> ef_vy := ef_vy e2 * Fin 0.98 \<rparr>;
          e4 = e3\<lparr> ef_pulsePhase := Some (numOf (ef_pulsePhase e3) + Fin 0.1) \<rparr>;
          pulse = jsin (numOf (ef_pulsePhase e4)) * Fin 0.2 + Fin 1;
          e5 = e4\<lparr> ef_size := numOf (ef_initialSize e4) * pulse \<rparr>;
          e6 = e5\<lparr> ef_x := ef_x e5 + jsin (numOf (ef_pulsePhase e5) * Fin 0.5) * Fin 0.5 \<rparr>
      in e6\<lparr> ef_opacity := ef_life e6 * Fin 0.9 \<rparr>)"

definition update_trail_bubble :: "effect \<Rightarrow> effect" where
  "update_trail_bubble e0 =
     (let e1 = e0\<lparr> ef_vy := ef_vy e0 - Fin 0.015 \<rparr>;
          e2 = e1\<lparr> ef_vx := ef_vx e1 * Fin 0.98 \<rparr>;
          e3 = e2\<lparr> ef_vy := ef_vy e2 * Fin 0.98 \<rparr>;
          e4 = e3\<lparr> ef_pulsePhase :=
                     Some (numOf (ef_pulsePhase e3) + numOf (ef_floatSpeed e3)) \<rparr>;
          pulse = jsin (numOf (ef_pulsePhase e4)) * Fin 0.25 + Fin 1;
          e5 = e4\<lparr> ef_size := numOf (ef_initialSize e4) * pulse \<rparr>;
          e6 = e5\<lparr> ef_x := ef_x e5 + jsin (numOf (ef_pulsePhase e5) * Fin 0.4) * Fin 0.6 \<rparr>;
          e7 = e6\<lparr> ef_y := ef_y e6 + jcos (numOf (ef_pulsePhase e6) * Fin 0.3) * Fin 0.4 \<rparr>;
          e8 = (if ef_sparklePhase e7 \<noteq> None then
                  (let e7a = e7\<lparr> ef_sparklePhase :=
                                    Some (numOf (ef_sparklePhase e7) + Fin 0.1) \<rparr>;
                       sparkle = jsin (numOf (ef_sparklePhase e7a)) * Fin 0.3 + Fin 0.7
                   in e7a\<lparr> ef_opacity := ef_life e7a * sparkle \<rparr>)
                else e7\<lparr> ef_opacity := ef_life e7 * Fin 0.9 \<rparr>)
      in if ef_type e8 = ''trail-bubble-large'' \<and> ef_bouncePhase e8 \<noteq> None then
           (let e9 = e8\<lparr> ef_bouncePhase := Some (numOf (ef_bouncePhase e8) + Fin 0.08) \<rparr>;
                bounce = jsin (numOf (ef_bouncePhase e9)) * Fin 0.8
            in e9\<lparr> ef_x := ef_x e9 + bounce \<rparr>)
         else e8)"

definition update_trail_sparkle :: "real \<Rightarrow> effect \<Rightarrow> effect" where
  "update_trail_sparkle now e0 =
     (let e1 = e0\<lparr> ef_vy := ef_vy e0 - Fin 0.01 \<rparr>;
          e2 = e1\<lparr> ef_vx := ef_vx e1 * Fin 0.99 \<rparr>;
          e3 = e2\<lparr> ef_vy := ef_vy e2 * Fin 0.99 \<rparr>;
          twinkle = jsin (Fin now * numOf (ef_twinkleSpeed e3)) * Fin 0.5 + Fin 0.5;
          e4 = e3\<lparr> ef_opacity := ef_life e3 * twinkle \<rparr>
      in e4\<lparr> ef_rotation := ef_rotation e4 + ef_rotationSpeed e4 \<rparr>)"

definition update_sparkle_bubble :: "real \<Rightarrow> effect \<Rightarrow> effect" where
  "update_sparkle_bubble now e0 =
     (let e1 = e0\<lparr> ef_vy := ef_vy e0 + Fin 0.03 \<rparr>;
          e2 = e1\<lparr> ef_vx := ef_vx e1 * Fin 0.97 \<rparr>;
          e3 = e2\<lparr> ef_vy := ef_vy e2 * Fin 0.97 \<rparr>
      in e3\<lparr> ef_opacity :=
               (jsin (Fin now * Fin 0.01 + ef_rotation e3) + Fin 1) * Fin 0.3 + Fin 0.2 \<rparr>)"

definition update_expanding_ring :: "effect \<Rightarrow> effect" where
  "update_expanding_ring e0 =
     (let progress = Fin 1 - ef_life e0;
          e1 = e0\<lparr> ef_size := Fin 5 + (numOf (ef_maxSize e0) - Fin 5) * progress \<rparr>
      in e1\<lparr> ef_opacity := ef_life e1 * Fin 0.6 \<rparr>)"

definition update_ambient :: "real \<Rightarrow> effect \<Rightarrow> effect" where
  "update_ambient now e0 =
     (let e1 = e0\<lparr> ef_twinkle := Some (numOf (ef_twinkle e0) + numOf (ef_twinkleSpeed e0)) \<rparr>;
          e2 = e1\<lparr> ef_opacity := (jsin (numOf (ef_twinkle e1)) + Fin 1) * Fin 0.2 + Fin 0.1 \<rparr>;
          time = Fin now * Fin 0.001;
          e3 = e2\<lparr> ef_y := ef_y e2 + jsin (time + ef_x e2 * Fin 0.01) * Fin 0.1 \<rparr>
      in e3\<lparr> ef_x := ef_x e3 + jcos (time + ef_y e3 * Fin 0.01) * Fin 0.05 \<rparr>)"

definition update_burst_trail :: "effect \<Rightarrow> effect" where
  "update_burst_trail e0 =
     (let e1 = e0\<lparr> ef_vy := ef_vy e0 + Fin 0.05 \<rparr>;
          e2 = e1\<lparr> ef_vx := ef_vx e1 * Fin 0.99 \<rparr>
      in e2\<lparr> ef_vy := ef_vy e2 * Fin 0.99 \<rparr>)"

definition update_glow :: "effect \<Rightarrow> effect" where
  "update_glow e0 =
     (let e1 = e0\<lparr> ef_size := ef_size e0 * Fin 1.03 \<rparr>
      in e1\<lparr> ef_opacity := ef_life e1 * Fin 0.3 \<rparr>)"

text \<open>The chain of \<open>if (effect.type === ...)\<close> tests.\<close>

definition update_by_type :: "real \<Rightarrow> effect \<Rightarrow> effect" where
  "update_by_type now e =
     (if ef_type e = ''bubble-click'' then update_bubble_click e
      else if ef_type e = ''sparkle-bubble-click'' then update_sparkle_bubble_click e
      else if ef_type e = ''expanding-ring-click'' then update_expanding_ring_click e
      else if ef_type e = ''glow-click'' then update_glow_click e
      else if ef_type e = ''heart-bubble-click'' then update_heart_bubble_click e
      else if ef_type e = ''bubble'' then update_bubble e
      else if ef_type e = ''trail-bubble'' \<or> ef_type e = ''trail-bubble-large''
        then update_trail_bubble e
      else if ef_type e = ''trail-sparkle'' then update_trail_sparkle now e
      else if ef_type e = ''sparkle-bubble'' then update_sparkle_bubble now e
      else if ef_type e = ''expanding-ring'' then update_expanding_ring e
      else if ef_type e = ''ambient'' then update_ambient now e
      else if ef_type e = ''burst'' \<or> ef_type e = ''trail'' then update_burst_trail e
      else if ef_type e = ''glow'' then update_glow e
      else e)"

text \<open>\<open>updateEffect(effect)\<close> changes the effect in place and returns whether it is still
  alive; \<open>now\<close> is \<open>Date.now()\<close>.\<close>

definition updateEffect :: "real \<Rightarrow> effect \<Rightarrow> bool \<times> effect" where
  "updateEffect now e0 =
     (let e1 = e0\<lparr> ef_x := ef_x e0 + ef_vx e0 \<rparr>;
          e2 = e1\<lparr> ef_y := ef_y e1 + ef_vy e1 \<rparr>;
          e3 = e2\<lparr> ef_rotation := ef_rotation e2 + ef_rotationSpeed e2 \<rparr>;
          e4 = e3\<lparr> ef_life := ef_life e3 - Fin 1 / ef_maxLife e3 \<rparr>;
          e5 = e4\<lparr> ef_opacity := ef_life e4 \<rparr>;
          e6 = update_by_type now e5
      in (Fin 0 < ef_life e6, e6))"

text \<open>\<open>animate()\<close>: the callback of \<open>filter\<close> updates each effect, draws it when it is
  alive and keeps it when it is alive. The result is the list of the effects handed to
  \<open>drawEffect\<close>, in order, and the system after the frame; \<open>clock i\<close> is \<open>Date.now()\<close>
  while the \<open>i\<close>-th effect is updated.\<close>

fun animate_effects :: "(nat \<Rightarrow> real) \<Rightarrow> nat \<Rightarrow> effect list \<Rightarrow> effect list \<times> effect list" where
  "animate_effects clock i [] = ([], [])"
| "animate_effects clock i (effect # rest) =
     (let (alive, effect') = updateEffect (clock i) effect;
          (drawn, kept) = animate_effects clock (Suc i) rest
      in if alive then (effect' # drawn, effect' # kept) else (drawn, kept))"

definition animate ::
  "(nat \<Rightarrow> real) \<Rightarrow> magicalEffectsSystem \<Rightarrow> effect list \<times> magicalEffectsSystem" where
  "animate clock s =
     (let (drawn, kept) = animate_effects clock 0 (mes_effects s)
      in (drawn, s\<lparr> mes_effects := kept \<rparr>))"

text \<open>An effect with a lifetime: \<open>life\<close> is a finite number and \<open>maxLife\<close> a finite
  positive one, as in every effect the emitters of this system create.\<close>

definition has_lifetime :: "effect \<Rightarrow> bool" where
  "has_lifetime e = (isFinite (ef_life e) \<and> isFinite (ef_maxLife e) \<and> Fin 0 < ef_maxLife e)"

section \<open>EffectManager (magical-effects.js)\<close>

text \<open>An identifier \<open>effect_<counter>_<Date.now()>\<close> is kept as the two values it is
  built from.\<close>

type_synonym effect_id = "nat \<times> real"

text \<open>An effect of the manager: the properties both kinds have, those of a ripple and
  those of a sparkle (\<open>None\<close> is \<open>undefined\<close>).\<close>

record managerEffect =
  me_id :: effect_id
  me_type :: string
  me_x :: jsnum
  me_y :: jsnum
  me_startTime :: real
  me_duration :: jsnum
  me_color :: "string option"
  me_isActive :: bool
  me_opacity :: jsnum
  me_lastUpdateTime :: real
  me_maxRadius :: "jsnum option"
  me_lineWidth :: "jsnum option"
  me_currentRadius :: "jsnum option"
  me_targetX :: "jsnum option"
  me_targetY :: "jsnum option"
  me_size :: "jsnum option"
  me_currentX :: "jsnum option"
  me_currentY :: "jsnum option"
  me_rotation :: "jsnum option"
  me_rotationSpeed :: "jsnum option"
  me_vx :: "jsnum option"
  me_vy :: "jsnum option"

text \<open>The \<open>options\<close> argument of \<open>createRippleEffect\<close> and \<open>createSparkleEffect\<close>, and
  that of \<open>createClickEffect\<close>. A count is a finite number.\<close>

record effectOptions =
  opt_duration :: "jsnum option"
  opt_maxRadius :: "jsnum option"
  opt_color :: "string option"
  opt_lineWidth :: "jsnum option"
  opt_count :: "real option"
  opt_distance :: "jsnum option"
  opt_size :: "jsnum option"

record clickOptions =
  opt_rippleDuration :: "jsnum option"
  opt_rippleRadius :: "jsnum option"
  opt_rippleColor :: "string option"
  opt_sparkleCount :: "real option"
  opt_sparkleDuration :: "jsnum option"
  opt_sparkleDistance :: "jsnum option"
  opt_sparkleColor :: "string option"

text \<open>\<open>a || d\<close>: the default stands for a value that is falsy (\<open>undefined\<close>, \<open>0\<close>, \<open>NaN\<close>,
  the empty string).\<close>

definition falsy_num :: "jsnum option \<Rightarrow> bool" where
  "falsy_num a = (a = None \<or> a = Some (Fin 0) \<or> a = Some NaN)"

definition num_or :: "jsnum option \<Rightarrow> jsnum \<Rightarrow> jsnum" where
  "num_or a d = (if falsy_num a then d else numOf a)"

definition falsy_str :: "string option \<Rightarrow> bool" where
  "falsy_str a = (a = None \<or> a = Some [])"

definition str_or :: "string option \<Rightarrow> string \<Rightarrow> string" where
  "str_or a d = (case a of None \<Rightarrow> d | Some s \<Rightarrow> if s = [] then d else s)"

definition count_or :: "real option \<Rightarrow> real \<Rightarrow> real" where
  "count_or a d = (case a of None \<Rightarrow> d | Some c \<Rightarrow> if c = 0 then d else c)"

record effectManager =
  em_cursorTracker :: "tracker option"
  em_activeEffects :: "managerEffect list"
  em_effectIdCounter :: nat
  em_maxEffects :: nat
  em_isAnimating :: bool
  em_lastCleanupTime :: real
  em_cleanupInterval :: real
  em_reducedMotion :: bool

text \<open>A \<open>TypeError\<close> is what reading a property of \<open>undefined\<close> throws.\<close>

datatype error = TypeError

text \<open>\<open>addEffect(effect)\<close>: \<open>shift()\<close> on an empty list returns \<open>undefined\<close>, and the log
  line then reads \<open>oldestEffect.id\<close>.\<close>

definition addEffect :: "managerEffect \<Rightarrow> effectManager \<Rightarrow> error + effectManager" where
  "addEffect effect m =
     (if length (em_activeEffects m) \<ge> em_maxEffects m then
        (case em_activeEffects m of
           [] \<Rightarrow> Inl TypeError
         | oldestEffect # rest \<Rightarrow> Inr (m\<lparr> em_activeEffects := rest @ [effect] \<rparr>))
      else Inr (m\<lparr> em_activeEffects := em_activeEffects m @ [effect] \<rparr>))"

text \<open>\<open>generateEffectId()\<close>; \<open>dateNow\<close> is \<open>Date.now()\<close>.\<close>

definition generateEffectId :: "real \<Rightarrow> effectManager \<Rightarrow> effect_id \<times> effectManager" where
  "generateEffectId dateNow m =
     (let m1 = m\<lparr> em_effectIdCounter := em_effectIdCounter m + 1 \<rparr>
      in ((em_effectIdCounter m1, dateNow), m1))"

definition sparkleColors :: "string list" where
  "sparkleColors =
     [''rgba(139, 92, 246, 0.8)'', ''rgba(168, 85, 247, 0.8)'', ''rgba(59, 130, 246, 0.8)'',
      ''rgba(147, 51, 234, 0.8)'', ''rgba(255, 255, 255, 0.8)'', ''rgba(192, 132, 252, 0.8)'']"

definition getRandomSparkleColor :: "real \<Rightarrow> string option" where
  "getRandomSparkleColor r = pick sparkleColors r"

text \<open>The manager's own \<open>isValidPosition\<close>, which reads the window directly.\<close>

definition em_isValidPosition :: "window \<Rightarrow> jsval \<Rightarrow> jsval \<Rightarrow> bool" where
  "em_isValidPosition win x y =
     (typeof x = ''number'' \<and>
      typeof y = ''number'' \<and>
      isFinite (the_num x) \<and>
      isFinite (the_num y) \<and>
      Fin 0 \<le> the_num x \<and>
      Fin 0 \<le> the_num y \<and>
      the_num x \<le> Fin (innerWidth win * 2) \<and>
      the_num y \<le> Fin (innerHeight win * 2))"

text \<open>The first lines of the emitters: the position of the tracker when there is one (the
  tracker is the object the call leaves behind), the arguments otherwise; an argument
  that is not \<open>undefined\<close> wins.\<close>

definition effectPosition ::
  "window \<Rightarrow> jsval \<Rightarrow> jsval \<Rightarrow> effectManager \<Rightarrow> (jsval \<times> jsval) \<times> effectManager" where
  "effectPosition win x y m =
     (let (position, m1) =
            (case em_cursorTracker m of
               Some t \<Rightarrow>
                 (let (p, t') = getCurrentPosition (Some win) t
                  in ((JNum (cp_x p), JNum (cp_y p)), m\<lparr> em_cursorTracker := Some t' \<rparr>))
             | None \<Rightarrow> ((x, y), m));
          effectX = (if x \<noteq> JUndefined then x else fst position);
          effectY = (if y \<noteq> JUndefined then y else snd position)
      in ((effectX, effectY), m1))"

text \<open>The object with no property set, as for the effects above.\<close>

definition empty_managerEffect :: managerEffect where
  "empty_managerEffect =
     \<lparr> me_id = (0, 0), me_type = [], me_x = NaN, me_y = NaN, me_startTime = 0,
       me_duration = NaN, me_color = None, me_isActive = False, me_opacity = NaN,
       me_lastUpdateTime = 0, me_maxRadius = None, me_lineWidth = None,
       me_currentRadius = None, me_targetX = None, me_targetY = None, me_size = None,
       me_currentX = None, me_currentY = None, me_rotation = None,
       me_rotationSpeed = None, me_vx = None, me_vy = None \<rparr>"

text \<open>The object literal of \<open>createRippleEffect\<close>; \<open>now\<close> is \<open>performance.now()\<close>.\<close>

definition rippleEffect ::
  "real \<Rightarrow> effect_id \<Rightarrow> jsnum \<Rightarrow> jsnum \<Rightarrow> effectOptions \<Rightarrow> managerEffect" where
  "rippleEffect now effectId effectX effectY options =
     empty_managerEffect\<lparr>
       me_id := effectId,
       me_type := ''ripple'',
       me_x := effectX,
       me_y := effectY,
       me_startTime := now,
       me_duration := num_or (opt_duration options) (Fin 800),
       me_maxRadius := Some (num_or (opt_maxRadius options) (Fin 150)),
       me_color := Some (str_or (opt_color options) ''rgba(139, 92, 246, 0.6)''),
       me_lineWidth := Some (num_or (opt_lineWidth options) (Fin 3)),
       me_isActive := True,
       me_currentRadius := Some (Fin 0),
       me_opacity := Fin 1,
       me_lastUpdateTime := now \<rparr>"

text \<open>\<open>createRippleEffect(x, y, options)\<close>; \<open>now\<close> is \<open>performance.now()\<close>, \<open>dateNow\<close> is
  \<open>Date.now()\<close>, each read once for the call. The result is the returned identifier
  (\<open>None\<close> is \<open>null\<close>) and the manager after the call.\<close>

definition createRippleEffect ::
  "window \<Rightarrow> real \<Rightarrow> real \<Rightarrow> jsval \<Rightarrow> jsval \<Rightarrow> effectOptions \<Rightarrow> effectManager
     \<Rightarrow> error + (effect_id option \<times> effectManager)" where
  "createRippleEffect win now dateNow x y options m =
     (if em_reducedMotion m then Inr (None, m)
      else
        let ((effectX, effectY), m1) = effectPosition win x y m
        in if \<not> em_isValidPosition win effectX effectY then Inr (None, m1)
           else
             let (effectId, m2) = generateEffectId dateNow m1;
                 ripple = rippleEffect now effectId (the_num effectX) (the_num effectY) options
             in case addEffect ripple m2 of
                  Inl err \<Rightarrow> Inl err
                | Inr m3 \<Rightarrow> Inr (Some effectId, m3))"

text \<open>The \<open>i\<close>-th sparkle of \<open>createSparkleEffect\<close>, with the number of random numbers it
  drew: the distance, the size and the colour are drawn only when the option is falsy.\<close>

definition sparkleEffect ::
  "real \<Rightarrow> effect_id \<Rightarrow> jsnum \<Rightarrow> jsnum \<Rightarrow> effectOptions \<Rightarrow> real \<Rightarrow> nat \<Rightarrow> rnd
     \<Rightarrow> managerEffect \<times> nat" where
  "sparkleEffect now effectId effectX effectY options sparkleCount i r =
     (let angle = (real i / sparkleCount) * pi * 2;
          (distance, k1) =
            (if falsy_num (opt_distance options) then (Fin (30 + r 0 * 20), 1)
             else (numOf (opt_distance options), 0));
          (sparkleSize, k2) =
            (if falsy_num (opt_size options) then (Fin (4 + r k1 * 4), k1 + 1)
             else (numOf (opt_size options), k1));
          (color, k3) =
            (if falsy_str (opt_color options) then (getRandomSparkleColor (r k2), k2 + 1)
             else (opt_color options, k2))
      in (empty_managerEffect\<lparr>
            me_id := effectId,
            me_type := ''sparkle'',
            me_x := effectX,
            me_y := effectY,
            me_targetX := Some (effectX + Fin (cos angle) * distance),
            me_targetY := Some (effectY + Fin (sin angle) * distance),
            me_startTime := now,
            me_duration := num_or (opt_duration options) (Fin 600),
            me_size := Some sparkleSize,
            me_color := color,
            me_isActive := True,
            me_currentX := Some effectX,
            me_currentY := Some effectY,
            me_opacity := Fin 1,
            me_rotation := Some (Fin angle),
            me_rotationSpeed := Some (Fin ((r k3 - 0.5) * 0.1)),
            me_vx := Some (Fin (cos angle * 2)),
            me_vy := Some (Fin (sin angle * 2)),
            me_lastUpdateTime := now \<rparr>,
          k3 + 1))"

text \<open>The loop \<open>for (let i = 0; i < sparkleCount; i++)\<close> with \<open>todo\<close> rounds left.\<close>

fun sparkleLoop ::
  "real \<Rightarrow> real \<Rightarrow> jsnum \<Rightarrow> jsnum \<Rightarrow> effectOptions \<Rightarrow> real \<Rightarrow> nat \<Rightarrow> nat \<Rightarrow> rnd
     \<Rightarrow> effectManager \<Rightarrow> error + (effect_id list \<times> effectManager)" where
  "sparkleLoop now dateNow effectX effectY options sparkleCount 0 i r m = Inr ([], m)"
| "sparkleLoop now dateNow effectX effectY options sparkleCount (Suc todo) i r m =
     (let (effectId, m1) = generateEffectId dateNow m;
          (sparkle, used) = sparkleEffect now effectId effectX effectY options sparkleCount i r
      in case addEffect sparkle m1 of
           Inl err \<Rightarrow> Inl err
         | Inr m2 \<Rightarrow>
             (case sparkleLoop now dateNow effectX effectY options sparkleCount todo (Suc i)
                     (drop_rnd used r) m2 of
                Inl err \<Rightarrow> Inl err
              | Inr (sparkleIds, m3) \<Rightarrow> Inr (effectId # sparkleIds, m3)))"

text \<open>\<open>createSparkleEffect(x, y, options)\<close>: the loop runs for every natural number below
  the count.\<close>

definition createSparkleEffect ::
  "window \<Rightarrow> real \<Rightarrow> real \<Rightarrow> rnd \<Rightarrow> jsval \<Rightarrow> jsval \<Rightarrow> effectOptions \<Rightarrow> effectManager
     \<Rightarrow> error + (effect_id list \<times> effectManager)" where
  "createSparkleEffect win now dateNow r x y options m =
     (if em_reducedMotion m then Inr ([], m)
      else
        let ((effectX, effectY), m1) = effectPosition win x y m
        in if \<not> em_isValidPosition win effectX effectY then Inr ([], m1)
           else
             let sparkleCount = count_or (opt_count options) 6
             in sparkleLoop now dateNow (the_num effectX) (the_num effectY) options
                  sparkleCount (nat \<lceil>sparkleCount\<rceil>) 0 r m1)"

text \<open>\<open>createClickEffect(x, y, options)\<close> returns the object \<open>{ripple, sparkles}\<close>.\<close>

record clickResult =
  ripple :: "effect_id option"
  sparkles :: "effect_id list"

definition em_createClickEffect ::
  "window \<Rightarrow> real \<Rightarrow> real \<Rightarrow> rnd \<Rightarrow> jsval \<Rightarrow> jsval \<Rightarrow> clickOptions \<Rightarrow> effectManager
     \<Rightarrow> error + (clickResult \<times> effectManager)" where
  "em_createClickEffect win now dateNow r x y options m =
     (if em_reducedMotion m then Inr (\<lparr> ripple = None, sparkles = [] \<rparr>, m)
      else
        case createRippleEffect win now dateNow x y
               \<lparr> opt_duration = Some (num_or (opt_rippleDuration options) (Fin 800)),
                 opt_maxRadius = Some (num_or (opt_rippleRadius options) (Fin 150)),
                 opt_color = Some (str_or (opt_rippleColor options) ''rgba(139, 92, 246, 0.6)''),
                 opt_lineWidth = None, opt_count = None, opt_distance = None,
                 opt_size = None \<rparr> m of
          Inl err \<Rightarrow> Inl err
        | Inr (rippleId, m1) \<Rightarrow>
            (case createSparkleEffect win now dateNow r x y
                    \<lparr> opt_duration = Some (num_or (opt_sparkleDuration options) (Fin 600)),
                      opt_maxRadius = None,
                      opt_color = opt_sparkleColor options,
                      opt_lineWidth = None,
                      opt_count = Some (count_or (opt_sparkleCount options) 6),
                      opt_distance = Some (num_or (opt_sparkleDistance options) (Fin 40)),
                      opt_size = None \<rparr> m1 of
               Inl err \<Rightarrow> Inl err
             | Inr (sparkleIds, m2) \<Rightarrow>
                 Inr (\<lparr> ripple = rippleId, sparkles = sparkleIds \<rparr>, m2)))"

subsection \<open>Updating, cleaning up and clearing the manager's list\<close>

definition updateRippleEffect :: "managerEffect \<Rightarrow> jsnum \<Rightarrow> managerEffect" where
  "updateRippleEffect effect progress =
     (let easeOut = Fin 1 - jpow (Fin 1 - progress) 3
      in effect\<lparr> me_currentRadius := Some (numOf (me_maxRadius effect) * easeOut),
                 me_opacity := Fin 1 - progress \<rparr>)"

definition updateSparkleEffect :: "managerEffect \<Rightarrow> jsnum \<Rightarrow> managerEffect" where
  "updateSparkleEffect effect progress =
     (let easeOut = Fin 1 - jpow (Fin 1 - progress) 2
      in effect\<lparr>
           me_currentX :=
             Some (me_x effect + (numOf (me_targetX effect) - me_x effect) * easeOut),
           me_currentY :=
             Some (me_y effect + (numOf (me_targetY effect) - me_y effect) * easeOut),
           me_rotation := Some (numOf (me_rotation effect) + numOf (me_rotationSpeed effect)),
           me_opacity := Fin 1 - progress \<rparr>)"

text \<open>The callback of the \<open>filter\<close> in \<open>updateEffects\<close>: the effect after the call and
  whether it is kept.\<close>

definition updateOne :: "real \<Rightarrow> managerEffect \<Rightarrow> bool \<times> managerEffect" where
  "updateOne currentTime effect =
     (if \<not> me_isActive effect then (False, effect)
      else
        let elapsed = currentTime - me_startTime effect;
            progress = jmin (Fin elapsed / me_duration effect) (Fin 1);
            e1 = (if me_type effect = ''ripple'' then updateRippleEffect effect progress
                  else if me_type effect = ''sparkle'' then updateSparkleEffect effect progress
                  else effect);
            e2 = e1\<lparr> me_lastUpdateTime := currentTime \<rparr>
        in if Fin 1 \<le> progress then (False, e2\<lparr> me_isActive := False \<rparr>)
           else (True, e2))"

text \<open>\<open>performCleanup()\<close>; \<open>currentTime\<close> is its own reading of \<open>performance.now()\<close>.\<close>

definition performCleanup :: "real \<Rightarrow> effectManager \<Rightarrow> effectManager" where
  "performCleanup currentTime m =
     m\<lparr> em_activeEffects :=
          filter (\<lambda>effect. currentTime - me_lastUpdateTime effect < 5000)
            (em_activeEffects m) \<rparr>"

definition updateEffects :: "real \<Rightarrow> real \<Rightarrow> effectManager \<Rightarrow> effectManager" where
  "updateEffects currentTime cleanupTime m =
     (let m1 = m\<lparr> em_activeEffects :=
                     map snd (filter fst (map (updateOne currentTime) (em_activeEffects m))) \<rparr>
      in if currentTime - em_lastCleanupTime m1 > em_cleanupInterval m1 then
           (performCleanup cleanupTime m1)\<lparr> em_lastCleanupTime := currentTime \<rparr>
         else m1)"

definition clearAllEffects :: "effectManager \<Rightarrow> effectManager" where
  "clearAllEffects m = m\<lparr> em_activeEffects := [] \<rparr>"

text \<open>\<open>removeEffect(effectId)\<close> splices the first effect with that identifier out.\<close>

fun remove_first :: "effect_id \<Rightarrow> managerEffect list \<Rightarrow> managerEffect list" where
  "remove_first effectId [] = []"
| "remove_first effectId (effect # rest) =
     (if me_id effect = effectId then rest else effect # remove_first effectId rest)"

definition removeEffect :: "effect_id \<Rightarrow> effectManager \<Rightarrow> bool \<times> effectManager" where
  "removeEffect effectId m =
     (if \<exists>effect \<in> set (em_activeEffects m). me_id effect = effectId then
        (True, m\<lparr> em_activeEffects := remove_first effectId (em_activeEffects m) \<rparr>)
      else (False, m))"

text \<open>The listener for a change of the reduced-motion preference.\<close>

definition em_onMotionChange :: "bool \<Rightarrow> effectManager \<Rightarrow> effectManager" where
  "em_onMotionChange matches m =
     (let m1 = m\<lparr> em_reducedMotion := matches \<rparr>
      in if em_reducedMotion m1 then clearAllEffects m1 else m1)"

text \<open>The constructor, with the tracker it is given, the reduced-motion preference and the
  clock of the first frame, which \<open>startAnimation\<close> runs at once.\<close>

definition EffectManager :: "tracker option \<Rightarrow> bool \<Rightarrow> real \<Rightarrow> real \<Rightarrow> effectManager" where
  "EffectManager cursorTracker reduced currentTime cleanupTime =
     updateEffects currentTime cleanupTime
       \<lparr> em_cursorTracker = cursorTracker, em_activeEffects = [], em_effectIdCounter = 0,
         em_maxEffects = 50, em_isAnimating = True, em_lastCleanupTime = 0,
         em_cleanupInterval = 1000, em_reducedMotion = reduced \<rparr>"

text \<open>Sequences of calls on a manager; a call that throws ends the sequence.\<close>

datatype manager_op =
    CreateRipple window real real jsval jsval effectOptions
  | CreateSparkle window real real rnd jsval jsval effectOptions
  | CreateClick window real real rnd jsval jsval clickOptions
  | UpdateEffects real real
  | ClearAllEffects
  | RemoveEffect effect_id
  | MotionChange bool

fun apply_manager_op :: "manager_op \<Rightarrow> effectManager \<Rightarrow> error + effectManager" where
  "apply_manager_op (CreateRipple win now dateNow x y options) m =
     map_sum id snd (createRippleEffect win now dateNow x y options m)"
| "apply_manager_op (CreateSparkle win now dateNow r x y options) m =
     map_sum id snd (createSparkleEffect win now dateNow r x y options m)"
| "apply_manager_op (CreateClick win now dateNow r x y options) m =
     map_sum id snd (em_createClickEffect win now dateNow r x y options m)"
| "apply_manager_op (UpdateEffects currentTime cleanupTime) m =
     Inr (updateEffects currentTime cleanupTime m)"
| "apply_manager_op ClearAllEffects m = Inr (clearAllEffects m)"
| "apply_manager_op (RemoveEffect effectId) m = Inr (snd (removeEffect effectId m))"
| "apply_manager_op (MotionChange matches) m = Inr (em_onMotionChange matches m)"

fun run_manager_ops :: "manager_op list \<Rightarrow> effectManager \<Rightarrow> error + effectManager" where
  "run_manager_ops [] m = Inr m"
| "run_manager_ops (op # ops) m =
     (case apply_manager_op op m of
        Inl err \<Rightarrow> Inl err
      | Inr m' \<Rightarrow> run_manager_ops ops m')"

text \<open>What every manager reached from the constructor satisfies: the capacity is 50 and
  the list holds at most 50 effects.\<close>

definition manager_inv :: "effectManager \<Rightarrow> bool" where
  "manager_inv m = (em_maxEffects m = 50 \<and> length (em_activeEffects m) \<le> 50)"

section \<open>ParticleSystem (particle-system.js)\<close>

record particle =
  p_x :: jsnum
  p_y :: jsnum
  p_vx :: jsnum
  p_vy :: jsnum
  p_size :: jsnum
  p_color :: "string option"
  p_opacity :: jsnum
  p_originalVx :: jsnum
  p_originalVy :: jsnum
  p_type :: string
  p_life :: jsnum
  p_maxLife :: jsnum
  p_glowIntensity :: "jsnum option"
  p_twinkle :: "jsnum option"
  p_twinkleSpeed :: "jsnum option"

text \<open>The system: the size of its canvas, its fields, and \<open>options.count\<close>, which the
  listener of the constructor reads again later (a finite number, or \<open>None\<close> when it is
  not given).\<close>

record particleSystem =
  ps_canvasWidth :: real
  ps_canvasHeight :: real
  ps_particles :: "particle list"
  ps_particleCount :: real
  ps_colors :: "string list"
  ps_isHeroHovered :: bool
  ps_currentTheme :: string
  ps_reducedMotion :: bool
  ps_optionsCount :: "real option"

text \<open>\<open>createParticle()\<close>, with the number of random numbers it drew.\<close>

definition createParticle :: "particleSystem \<Rightarrow> rnd \<Rightarrow> particle \<times> nat" where
  "createParticle s r =
     (let particleType = r 0
      in if particleType < 0.7 then
           (\<lparr> p_x = Fin (r 1 * ps_canvasWidth s),
              p_y = Fin (r 2 * ps_canvasHeight s),
              p_vx = Fin ((r 3 - 0.5) * 0.5),
              p_vy = Fin ((r 4 - 0.5) * 0.5),
              p_size = Fin (r 5 * 3 + 1),
              p_color = pick (ps_colors s) (r 6),
              p_opacity = Fin (r 7 * 0.5 + 0.2),
              p_originalVx = Fin ((r 8 - 0.5) * 0.5),
              p_originalVy = Fin ((r 9 - 0.5) * 0.5),
              p_type = ''regular'',
              p_life = Fin 1.0,
              p_maxLife = Fin 1.0,
              p_glowIntensity = None, p_twinkle = None, p_twinkleSpeed = None \<rparr>, 10)
         else if particleType < 0.85 then
           (\<lparr> p_x = Fin (r 1 * ps_canvasWidth s),
              p_y = Fin (r 2 * ps_canvasHeight s),
              p_vx = Fin ((r 3 - 0.5) * 0.3),
              p_vy = Fin ((r 4 - 0.5) * 0.3),
              p_size = Fin (r 5 * 5 + 2),
              p_color = pick (ps_colors s) (r 6),
              p_opacity = Fin (r 7 * 0.8 + 0.4),
              p_originalVx = Fin ((r 8 - 0.5) * 0.3),
              p_originalVy = Fin ((r 9 - 0.5) * 0.3),
              p_type = ''glow'',
              p_life = Fin 1.0,
              p_maxLife = Fin 1.0,
              p_glowIntensity = Some (Fin (r 10 * 0.5 + 0.5)),
              p_twinkle = None, p_twinkleSpeed = None \<rparr>, 11)
         else
           (\<lparr> p_x = Fin (r 1 * ps_canvasWidth s),
              p_y = Fin (r 2 * ps_canvasHeight s),
              p_vx = Fin ((r 3 - 0.5) * 0.2),
              p_vy = Fin ((r 4 - 0.5) * 0.2),
              p_size = Fin (r 5 * 2 + 0.5),
              p_color = Some ''#ffd700'',
              p_opacity = Fin (r 6 * 0.6 + 0.3),
              p_originalVx = Fin ((r 7 - 0.5) * 0.2),
              p_originalVy = Fin ((r 8 - 0.5) * 0.2),
              p_type = ''sparkle'',
              p_life = Fin 1.0,
              p_maxLife = Fin 1.0,
              p_glowIntensity = None,
              p_twinkle = Some (Fin (r 9 * pi * 2)),
              p_twinkleSpeed = Some (Fin (r 10 * 0.05 + 0.02)) \<rparr>, 11))"

text \<open>The loop of \<open>createParticles\<close> with \<open>todo\<close> rounds left, and \<open>createParticles()\<close>,
  which runs it for every natural number below \<open>particleCount\<close>; both also return the
  number of random numbers drawn.\<close>

fun particleLoop :: "particleSystem \<Rightarrow> nat \<Rightarrow> rnd \<Rightarrow> particle list \<times> nat" where
  "particleLoop s 0 r = ([], 0)"
| "particleLoop s (Suc todo) r =
     (let (particle, used) = createParticle s r;
          (rest, used') = particleLoop s todo (drop_rnd used r)
      in (particle # rest, used + used'))"

definition createParticles :: "rnd \<Rightarrow> particleSystem \<Rightarrow> particleSystem \<times> nat" where
  "createParticles r s =
     (let (particles, used) = particleLoop s (nat \<lceil>ps_particleCount s\<rceil>) r
      in (s\<lparr> ps_particles := particles \<rparr>, used))"

text \<open>\<open>updateParticle(particle)\<close>, block by block as the source comments them: the
  parallax movement, the hero hover effect, the properties of the particle's type, the
  floating motion and the wrap around the screen edges. \<open>scrollY\<close> is \<open>window.scrollY\<close>,
  \<open>nowGlow\<close> and \<open>nowFloat\<close> are the two readings of \<open>Date.now()\<close>.\<close>

definition parallaxMovement :: "real \<Rightarrow> particle \<Rightarrow> particle" where
  "parallaxMovement scrollY p0 =
     (let parallaxFactor = 0.3;
          p1 = p0\<lparr> p_x := p_x p0 + (p_vx p0 + Fin (scrollY * parallaxFactor * 0.001)) \<rparr>
      in p1\<lparr> p_y := p_y p1 + (p_vy p1 - Fin (scrollY * parallaxFactor * 0.002)) \<rparr>)"

definition heroHoverEffect :: "particleSystem \<Rightarrow> particle \<Rightarrow> particle" where
  "heroHoverEffect s p =
     (if ps_isHeroHovered s then
        p\<lparr> p_vx := p_originalVx p * Fin 2,
           p_vy := p_originalVy p * Fin 2,
           p_opacity := jmin (p_opacity p * Fin 1.5) (Fin 1) \<rparr>
      else
        p\<lparr> p_vx := p_originalVx p,
           p_vy := p_originalVy p,
           p_opacity := jmax (p_opacity p / Fin 1.5) (Fin 0.2) \<rparr>)"

definition typeProperties :: "real \<Rightarrow> particle \<Rightarrow> particle" where
  "typeProperties nowGlow p =
     (if p_type p = ''sparkle'' then
        (let p1 = p\<lparr> p_twinkle := Some (numOf (p_twinkle p) + numOf (p_twinkleSpeed p)) \<rparr>
         in p1\<lparr> p_opacity := (jsin (numOf (p_twinkle p1)) + Fin 1) * Fin 0.3 + Fin 0.2 \<rparr>)
      else if p_type p = ''glow'' then
        p\<lparr> p_glowIntensity :=
             Some (jsin (Fin nowGlow * Fin 0.001 + p_x p * Fin 0.01) * Fin 0.3 + Fin 0.7) \<rparr>
      else p)"

definition floatingMotion :: "real \<Rightarrow> particle \<Rightarrow> particle" where
  "floatingMotion nowFloat p =
     (let time = Fin nowFloat * Fin 0.001;
          p1 = p\<lparr> p_y := p_y p + jsin (time + p_x p * Fin 0.01) * Fin 0.1 \<rparr>
      in p1\<lparr> p_x := p_x p1 + jcos (time + p_y p1 * Fin 0.01) * Fin 0.05 \<rparr>)"

definition wrapX :: "particleSystem \<Rightarrow> particle \<Rightarrow> particle" where
  "wrapX s p =
     (let p1 = (if p_x p < Fin (- 50) then p\<lparr> p_x := Fin (ps_canvasWidth s + 50) \<rparr> else p)
      in if Fin (ps_canvasWidth s + 50) < p_x p1 then p1\<lparr> p_x := Fin (- 50) \<rparr> else p1)"

definition wrapY :: "particleSystem \<Rightarrow> particle \<Rightarrow> particle" where
  "wrapY s p =
     (let p1 = (if p_y p < Fin (- 50) then p\<lparr> p_y := Fin (ps_canvasHeight s + 50) \<rparr> else p)
      in if Fin (ps_canvasHeight s + 50) < p_y p1 then p1\<lparr> p_y := Fin (- 50) \<rparr> else p1)"

definition updateParticle ::
  "particleSystem \<Rightarrow> real \<Rightarrow> real \<Rightarrow> real \<Rightarrow> particle \<Rightarrow> particle" where
  "updateParticle s scrollY nowGlow nowFloat particle =
     wrapY s (wrapX s (floatingMotion nowFloat (typeProperties nowGlow
       (heroHoverEffect s (parallaxMovement scrollY particle)))))"

text \<open>\<open>animate()\<close>: the particles handed to \<open>drawParticle\<close>, in order, and the system after
  the frame; \<open>clock i\<close> holds the two readings of \<open>Date.now()\<close> for the \<open>i\<close>-th particle.
  No particle leaves the list.\<close>

definition ps_animate ::
  "real \<Rightarrow> (nat \<Rightarrow> real \<times> real) \<Rightarrow> particleSystem \<Rightarrow> particle list \<times> particleSystem" where
  "ps_animate scrollY clock s =
     (if \<not> ps_reducedMotion s then
        (let particles =
               map (\<lambda>(i, particle). updateParticle s scrollY (fst (clock i)) (snd (clock i)) particle)
                 (enumerate 0 (ps_particles s))
         in (particles, s\<lparr> ps_particles := particles \<rparr>))
      else (ps_particles s, s))"

text \<open>\<open>options.count || 50\<close>.\<close>

definition countOption :: "real option \<Rightarrow> real" where
  "countOption c = count_or c 50"

text \<open>The two listeners for a change of the reduced-motion preference: the one the
  constructor registers and the one \<open>bindEvents\<close> registers. They run in that order.\<close>

definition ps_onMotionChange_constructor ::
  "bool \<Rightarrow> rnd \<Rightarrow> particleSystem \<Rightarrow> particleSystem \<times> nat" where
  "ps_onMotionChange_constructor matches r s =
     (let s1 = s\<lparr> ps_reducedMotion := matches \<rparr>;
          s2 = (if ps_reducedMotion s1 then
                  s1\<lparr> ps_particleCount := of_int \<lfloor>countOption (ps_optionsCount s1) * 0.1\<rfloor> \<rparr>
                else s1\<lparr> ps_particleCount := countOption (ps_optionsCount s1) \<rparr>)
      in createParticles r s2)"

definition ps_onMotionChange_bindEvents ::
  "bool \<Rightarrow> rnd \<Rightarrow> particleSystem \<Rightarrow> particleSystem \<times> nat" where
  "ps_onMotionChange_bindEvents matches r s =
     (let s1 = s\<lparr> ps_reducedMotion := matches \<rparr>
      in if ps_reducedMotion s1 then
           createParticles r (s1\<lparr> ps_particleCount := of_int \<lfloor>ps_particleCount s1 * 0.3\<rfloor> \<rparr>)
         else createParticles r (s1\<lparr> ps_particleCount := 50 \<rparr>))"

definition ps_onMotionChange :: "bool \<Rightarrow> rnd \<Rightarrow> particleSystem \<Rightarrow> particleSystem" where
  "ps_onMotionChange matches r s =
     (let (s1, used) = ps_onMotionChange_constructor matches r s;
          (s2, used') = ps_onMotionChange_bindEvents matches (drop_rnd used r) s1
      in s2)"

text \<open>The constructor \<open>new ParticleSystem(canvas, options)\<close>: the window gives the size of
  the canvas, \<open>reduced\<close> is the preference at that moment, and \<open>init\<close> ends with the
  first frame.\<close>

definition ParticleSystem ::
  "window \<Rightarrow> real option \<Rightarrow> string list option \<Rightarrow> bool \<Rightarrow> rnd \<Rightarrow> real \<Rightarrow> (nat \<Rightarrow> real \<times> real)
     \<Rightarrow> particleSystem" where
  "ParticleSystem win optionsCount optionsColors reduced r scrollY clock =
     (let s0 = \<lparr> ps_canvasWidth = innerWidth win, ps_canvasHeight = innerHeight win,
                 ps_particles = [],
                 ps_particleCount = countOption optionsCount,
                 ps_colors = (case optionsColors of
                                Some colors \<Rightarrow> colors
                              | None \<Rightarrow> [''#8b5cf6'', ''#c084fc'', ''#d8b4fe'']),
                 ps_isHeroHovered = False, ps_currentTheme = ''dark'',
                 ps_reducedMotion = reduced, ps_optionsCount = optionsCount \<rparr>;
          s1 = (if ps_reducedMotion s0 then
                  s0\<lparr> ps_particleCount := of_int \<lfloor>ps_particleCount s0 * 0.1\<rfloor> \<rparr>
                else s0);
          (s2, used) = createParticles r s1
      in snd (ps_animate scrollY clock s2))"

section \<open>ScreenSparklesSystem (screen-sparkles.js)\<close>

record sparkle =
  sp_x :: jsnum
  sp_y :: jsnum
  sp_size :: jsnum
  sp_opacity :: jsnum
  sp_twinkle :: jsnum
  sp_twinkleSpeed :: jsnum
  sp_driftX :: jsnum
  sp_driftY :: jsnum
  sp_color :: "string option"
  sp_life :: jsnum
  sp_maxLife :: jsnum
  sp_birthTime :: real

record screenSparklesSystem =
  ss_sparkles :: "sparkle list"
  ss_canvasWidth :: real
  ss_canvasHeight :: real
  ss_reducedMotion :: bool
  ss_sparkleCount :: nat

definition screenSparkleColors :: "string list" where
  "screenSparkleColors =
     [''rgba(255, 255, 255, 0.4)'', ''rgba(192, 192, 192, 0.3)'', ''rgba(139, 92, 246, 0.3)'',
      ''rgba(168, 85, 247, 0.3)'', ''rgba(196, 181, 253, 0.3)'', ''rgba(220, 220, 220, 0.2)'',
      ''rgba(124, 58, 237, 0.3)'', ''rgba(147, 51, 234, 0.3)'']"

text \<open>\<open>createSparkle()\<close> draws ten random numbers; \<open>now\<close> is \<open>Date.now()\<close>.\<close>

definition createSparkle :: "real \<Rightarrow> rnd \<Rightarrow> screenSparklesSystem \<Rightarrow> sparkle" where
  "createSparkle now r s =
     \<lparr> sp_x = Fin (r 0 * ss_canvasWidth s),
       sp_y = Fin (r 1 * ss_canvasHeight s),
       sp_size = Fin (r 2 * 2 + 1),
       sp_opacity = Fin (r 3 * 0.5 + 0.2),
       sp_twinkle = Fin (r 4 * pi * 2),
       sp_twinkleSpeed = Fin (r 5 * 0.02 + 0.01),
       sp_driftX = Fin ((r 6 - 0.5) * 0.1),
       sp_driftY = Fin ((r 7 - 0.5) * 0.1),
       sp_color = pick screenSparkleColors (r 8),
       sp_life = Fin (r 9 * 300 + 200),
       sp_maxLife = Fin 0,
       sp_birthTime = now \<rparr>"

definition createSparkles :: "real \<Rightarrow> rnd \<Rightarrow> screenSparklesSystem \<Rightarrow> screenSparklesSystem" where
  "createSparkles now r s =
     s\<lparr> ss_sparkles :=
          map (\<lambda>i. createSparkle now (drop_rnd (10 * i) r) s) [0..<ss_sparkleCount s] \<rparr>"

text \<open>\<open>updateSparkle(sparkle)\<close>, block by block as the source comments them: the twinkle,
  the drift and the floating motion; the wrap around the edges; the life and the respawn.
  \<open>now\<close> is the reading of \<open>Date.now()\<close> for the floating motion, \<open>nowBirth\<close> the one
  \<open>createSparkle\<close> takes when the sparkle is respawned. The result is the sparkle after
  the call (\<open>Object.assign\<close> overwrites every property of a respawned sparkle) and the
  number of random numbers drawn.\<close>

definition twinkleAndDrift :: "real \<Rightarrow> sparkle \<Rightarrow> sparkle" where
  "twinkleAndDrift now sparkle =
     (let sp1 = sparkle\<lparr> sp_twinkle := sp_twinkle sparkle + sp_twinkleSpeed sparkle \<rparr>;
          twinkleOpacity = (jsin (sp_twinkle sp1) + Fin 1) * Fin 0.3 + Fin 0.1;
          sp2 = sp1\<lparr> sp_opacity := twinkleOpacity \<rparr>;
          sp3 = sp2\<lparr> sp_x := sp_x sp2 + sp_driftX sp2 \<rparr>;
          sp4 = sp3\<lparr> sp_y := sp_y sp3 + sp_driftY sp3 \<rparr>;
          time = Fin ((now - sp_birthTime sp4) * 0.001);
          sp5 = sp4\<lparr> sp_y := sp_y sp4 + jsin (time + sp_x sp4 * Fin 0.01) * Fin 0.05 \<rparr>
      in sp5\<lparr> sp_x := sp_x sp5 + jcos (time + sp_y sp5 * Fin 0.01) * Fin 0.03 \<rparr>)"

definition ss_wrapX :: "screenSparklesSystem \<Rightarrow> sparkle \<Rightarrow> sparkle" where
  "ss_wrapX s sparkle =
     (let sp1 = (if sp_x sparkle < Fin (- 10)
                 then sparkle\<lparr> sp_x := Fin (ss_canvasWidth s + 10) \<rparr> else sparkle)
      in if Fin (ss_canvasWidth s + 10) < sp_x sp1 then sp1\<lparr> sp_x := Fin (- 10) \<rparr> else sp1)"

definition ss_wrapY :: "screenSparklesSystem \<Rightarrow> sparkle \<Rightarrow> sparkle" where
  "ss_wrapY s sparkle =
     (let sp1 = (if sp_y sparkle < Fin (- 10)
                 then sparkle\<lparr> sp_y := Fin (ss_canvasHeight s + 10) \<rparr> else sparkle)
      in if Fin (ss_canvasHeight s + 10) < sp_y sp1 then sp1\<lparr> sp_y := Fin (- 10) \<rparr> else sp1)"

definition updateSparkle ::
  "screenSparklesSystem \<Rightarrow> real \<Rightarrow> real \<Rightarrow> rnd \<Rightarrow> sparkle \<Rightarrow> sparkle \<times> nat" where
  "updateSparkle s now nowBirth r sparkle =
     (if ss_reducedMotion s then (sparkle, 0)
      else
        let sp1 = ss_wrapY s (ss_wrapX s (twinkleAndDrift now sparkle));
            sp2 = sp1\<lparr> sp_life := sp_life sp1 - Fin 1 \<rparr>
        in if sp_life sp2 \<le> Fin 0 then (createSparkle nowBirth r s, 10) else (sp2, 0))"

text \<open>\<open>animate()\<close>: with motion not reduced every sparkle is updated and drawn, in order;
  with motion reduced the canvas is only cleared. The result is the list of the sparkles
  handed to \<open>drawSparkle\<close> and the system after the frame; \<open>clock i\<close> holds the two
  readings of \<open>Date.now()\<close> for the \<open>i\<close>-th sparkle.\<close>

fun ss_animate_sparkles ::
  "screenSparklesSystem \<Rightarrow> (nat \<Rightarrow> real \<times> real) \<Rightarrow> nat \<Rightarrow> rnd \<Rightarrow> sparkle list
     \<Rightarrow> sparkle list" where
  "ss_animate_sparkles s clock i r [] = []"
| "ss_animate_sparkles s clock i r (sparkle # rest) =
     (let (sparkle', used) = updateSparkle s (fst (clock i)) (snd (clock i)) r sparkle
      in sparkle' # ss_animate_sparkles s clock (Suc i) (drop_rnd used r) rest)"

definition ss_animate ::
  "(nat \<Rightarrow> real \<times> real) \<Rightarrow> rnd \<Rightarrow> screenSparklesSystem
     \<Rightarrow> sparkle list \<times> screenSparklesSystem" where
  "ss_animate clock r s =
     (if \<not> ss_reducedMotion s then
        (let sparkles = ss_animate_sparkles s clock 0 r (ss_sparkles s)
         in (sparkles, s\<lparr> ss_sparkles := sparkles \<rparr>))
      else ([], s))"

text \<open>The constructor: \<open>init\<close> creates the sparkles, binds the listeners and runs the first
  frame, which draws its random numbers after those of \<open>createSparkles\<close>.\<close>

definition ScreenSparklesSystem ::
  "window \<Rightarrow> bool \<Rightarrow> real \<Rightarrow> rnd \<Rightarrow> (nat \<Rightarrow> real \<times> real) \<Rightarrow> screenSparklesSystem" where
  "ScreenSparklesSystem win reduced now r clock =
     (let s0 = \<lparr> ss_sparkles = [], ss_canvasWidth = innerWidth win,
                 ss_canvasHeight = innerHeight win,
                 ss_reducedMotion = reduced, ss_sparkleCount = (if reduced then 0 else 12) \<rparr>;
          s1 = createSparkles now r s0
      in snd (ss_animate clock (drop_rnd (10 * ss_sparkleCount s1) r) s1))"

text \<open>The listeners of \<open>bindEvents\<close>: resize, a change of the reduced-motion preference,
  click, and the timeout a click sets.\<close>

definition ss_onResize ::
  "window \<Rightarrow> real \<Rightarrow> rnd \<Rightarrow> screenSparklesSystem \<Rightarrow> screenSparklesSystem" where
  "ss_onResize win now r s =
     createSparkles now r
       (s\<lparr> ss_canvasWidth := innerWidth win, ss_canvasHeight := innerHeight win \<rparr>)"

definition ss_onMotionChange ::
  "bool \<Rightarrow> real \<Rightarrow> rnd \<Rightarrow> screenSparklesSystem \<Rightarrow> screenSparklesSystem" where
  "ss_onMotionChange matches now r s =
     (let s1 = s\<lparr> ss_reducedMotion := matches \<rparr>;
          s2 = s1\<lparr> ss_sparkleCount := (if ss_reducedMotion s1 then 0 else 12) \<rparr>
      in createSparkles now r s2)"

definition ss_onClick :: "real \<Rightarrow> rnd \<Rightarrow> screenSparklesSystem \<Rightarrow> screenSparklesSystem" where
  "ss_onClick now r s =
     (if \<not> ss_reducedMotion s \<and> length (ss_sparkles s) < 20 then
        s\<lparr> ss_sparkles := ss_sparkles s @
             map (\<lambda>i. let tempSparkle = createSparkle now (drop_rnd (10 * i) r) s;
                          t1 = tempSparkle\<lparr> sp_life := Fin 60 \<rparr>
                      in t1\<lparr> sp_twinkleSpeed := sp_twinkleSpeed t1 * Fin 2 \<rparr>)
               [0..<3] \<rparr>
      else s)"

definition ss_clickTimeout :: "screenSparklesSystem \<Rightarrow> screenSparklesSystem" where
  "ss_clickTimeout s = s\<lparr> ss_sparkles := take (ss_sparkleCount s) (ss_sparkles s) \<rparr>"

section \<open>The operators unfold to the functions that define them\<close>

lemmas jsnum_ops [simp] =
  plus_jsnum_def minus_jsnum_def uminus_jsnum_def times_jsnum_def divide_jsnum_def
  inverse_jsnum_def less_jsnum_def less_eq_jsnum_def

section \<open>Properties of the CursorTracker\<close>

lemma isValidPosition_finite:
  assumes "isValidPosition w x y"
  obtains a b where "x = JNum (Fin a)" "y = JNum (Fin b)"
    "0 \<le> a" "0 \<le> b" "a \<le> maxWidth w" "b \<le> maxHeight w"
proof -
  from assms obtain n m where xy: "x = JNum n" "y = JNum m"
    by (cases x; cases y) (simp_all add: isValidPosition_def)
  with assms obtain a b where ab: "n = Fin a" "m = Fin b"
    by (cases n; cases m) (simp_all add: isValidPosition_def)
  with assms xy have "0 \<le> a" "0 \<le> b" "a \<le> maxWidth w" "b \<le> maxHeight w"
    by (simp_all add: isValidPosition_def)
  with xy ab that show thesis by blast
qed

lemma isValidPosition_iff:
  "isValidPosition w x y \<longleftrightarrow>
     (\<exists>a b. x = JNum (Fin a) \<and> y = JNum (Fin b) \<and>
            0 \<le> a \<and> 0 \<le> b \<and> a \<le> maxWidth w \<and> b \<le> maxHeight w)"
proof
  assume "isValidPosition w x y"
  then show "\<exists>a b. x = JNum (Fin a) \<and> y = JNum (Fin b) \<and>
            0 \<le> a \<and> 0 \<le> b \<and> a \<le> maxWidth w \<and> b \<le> maxHeight w"
    by (rule isValidPosition_finite) blast
next
  assume "\<exists>a b. x = JNum (Fin a) \<and> y = JNum (Fin b) \<and>
            0 \<le> a \<and> 0 \<le> b \<and> a \<le> maxWidth w \<and> b \<le> maxHeight w"
  then show "isValidPosition w x y"
    by (auto simp: isValidPosition_def)
qed

lemma updatePosition_rejected:
  "\<not> isValidPosition w x y \<Longrightarrow> updatePosition w now x y t = (False, t)"
  by (simp add: updatePosition_def)

lemma updatePosition_accepted:
  assumes "updatePosition w now x y t = (True, t')"
  shows "isTracking t" "isValidPosition w x y"
  using assms by (auto simp: updatePosition_def split: if_splits)

lemma updatePosition_fields:
  assumes "updatePosition w now x y t = (True, t')"
  shows "mouseX t' = the_num x" "mouseY t' = the_num y"
    "previousX t' = mouseX t" "previousY t' = mouseY t"
    "stateVersion t' = stateVersion t + 1"
    "isInitialized t'" "lastUpdateTime t' = now"
    "\<exists>s. lastValidState t' = Some s \<and> vs_version s = stateVersion t + 1 \<and>
         vs_x s = the_num x \<and> vs_y s = the_num y \<and>
         vs_previousX s = mouseX t \<and> vs_previousY s = mouseY t"
  using assms by (auto simp: updatePosition_def Let_def split: if_splits)

lemma updatePosition_fst_False:
  "\<not> fst (updatePosition w now x y t) \<Longrightarrow> updatePosition w now x y t = (False, t)"
  by (auto simp: updatePosition_def Let_def split: if_splits)

lemma updatePosition_cases:
  obtains (rejected) "updatePosition w now x y t = (False, t)"
  | (accepted) t' where "updatePosition w now x y t = (True, t')"
  by (cases "updatePosition w now x y t") (auto simp: updatePosition_def Let_def split: if_splits)

lemma tracker_inv_update:
  assumes "tracker_inv t"
  shows "tracker_inv (snd (updatePosition w now x y t))"
proof (cases rule: updatePosition_cases[of w now x y t])
  case rejected
  with assms show ?thesis by simp
next
  case (accepted t')
  from updatePosition_accepted(2)[OF accepted] obtain a b
    where ab: "x = JNum (Fin a)" "y = JNum (Fin b)"
    by (rule isValidPosition_finite)
  from updatePosition_fields[OF accepted] ab assms
  show ?thesis
    unfolding accepted by (auto simp: tracker_inv_def)
qed

lemma tracker_inv_reset: "tracker_inv (resetToOrigin t)"
  by (simp add: tracker_inv_def resetToOrigin_def)

lemma tracker_inv_recover:
  "tracker_inv t \<Longrightarrow> tracker_inv (snd (recoverState now t))"
  by (auto simp: tracker_inv_def recoverState_def resetToOrigin_def split: option.splits)

lemma tracker_inv_apply_op: "tracker_inv t \<Longrightarrow> tracker_inv (apply_op op t)"
proof (cases op)
  case (SetTracking b)
  assume "tracker_inv t"
  with SetTracking show ?thesis
    by (simp add: tracker_inv_def setTracking_def split: option.splits)
qed (simp_all add: tracker_inv_update tracker_inv_reset tracker_inv_recover)

lemma tracker_inv_run_ops: "tracker_inv t \<Longrightarrow> tracker_inv (run_ops ops t)"
  by (induction ops arbitrary: t) (simp_all add: tracker_inv_apply_op)

lemma tracker_inv_new: "tracker_inv CursorTracker"
  by (simp add: tracker_inv_def CursorTracker_def)

lemma tracker_inv_reachable: "tracker_inv (run_ops ops CursorTracker)"
  by (simp add: tracker_inv_run_ops tracker_inv_new)

lemma stateVersion_apply_op_mono:
  assumes "tracker_inv t" "\<not> resets op t"
  shows "stateVersion t \<le> stateVersion (apply_op op t)"
proof (cases op)
  case (Update w now x y)
  show ?thesis
  proof (cases rule: updatePosition_cases[of w now x y t])
    case rejected
    with Update show ?thesis by simp
  next
    case (accepted t')
    with Update updatePosition_fields(5)[OF accepted] show ?thesis by simp
  qed
next
  case (Recover now)
  with assms show ?thesis
    by (auto simp: tracker_inv_def recoverState_def split: option.splits)
next
  case Reset
  with assms show ?thesis by simp
next
  case (SetTracking b)
  then show ?thesis by (simp add: setTracking_def)
qed

lemma accepts_none_not_initialized:
  "\<not> isInitialized t \<Longrightarrow> accepts_none ops t \<Longrightarrow> \<not> isInitialized (run_ops ops t)"
proof (induction ops arbitrary: t)
  case Nil
  then show ?case by simp
next
  case (Cons op ops)
  show ?case
  proof (cases op)
    case (Update w now x y)
    with Cons.prems have rej: "updatePosition w now x y t = (False, t)"
      by (simp add: updatePosition_fst_False)
    with Update Cons.prems have "apply_op op t = t" "accepts_none ops t"
      by simp_all
    with Cons show ?thesis by simp
  next
    case (Recover now)
    with Cons.prems have "\<not> isInitialized (apply_op op t)" "accepts_none ops (apply_op op t)"
      by (simp_all add: recoverState_def resetToOrigin_def split: option.splits)
    with Cons.IH show ?thesis by simp
  next
    case Reset
    with Cons.prems have "\<not> isInitialized (apply_op op t)" "accepts_none ops (apply_op op t)"
      by (simp_all add: resetToOrigin_def)
    with Cons.IH show ?thesis by simp
  next
    case (SetTracking b)
    with Cons.prems have "\<not> isInitialized (apply_op op t)" "accepts_none ops (apply_op op t)"
      by (simp_all add: setTracking_def)
    with Cons.IH show ?thesis by simp
  qed
qed


text \<open>
  Claim C2. Whatever the tracker holds, \<open>updatePosition(x, y)\<close> with an \<open>x\<close> or a \<open>y\<close>
  that is not a finite number (a value of another type, \<open>NaN\<close>, an infinity), that is
  negative, or that exceeds the bound (twice the window's width or height; 10000 without a
  window) returns \<open>false\<close> and leaves the tracker as it was, field by field.
\<close>
theorem updatePosition_rejects_invalid:
  assumes "(\<forall>a. x \<noteq> JNum (Fin a)) \<or> (\<forall>b. y \<noteq> JNum (Fin b)) \<or>
           (\<exists>a. x = JNum (Fin a) \<and> (a < 0 \<or> maxWidth w < a)) \<or>
           (\<exists>b. y = JNum (Fin b) \<and> (b < 0 \<or> maxHeight w < b))"
  shows "updatePosition w now x y t = (False, t)"
proof -
  from assms have "\<not> isValidPosition w x y"
    unfolding isValidPosition_iff by auto
  then show ?thesis by (rule updatePosition_rejected)
qed

text \<open>\<open>updatePosition(NaN, 50)\<close> after an accepted update at (10, 20): the call fails and the
  position stays (10, 20).\<close>
theorem updatePosition_rejects_invalid_witness:
  "updatePosition (Some \<lparr> innerWidth = 1280, innerHeight = 720 \<rparr>) 16 (JNum NaN) (JNum (Fin 50))
     (run_ops [Update (Some \<lparr> innerWidth = 1280, innerHeight = 720 \<rparr>) 8
                 (JNum (Fin 10)) (JNum (Fin 20))] CursorTracker)
   = (False, run_ops [Update (Some \<lparr> innerWidth = 1280, innerHeight = 720 \<rparr>) 8
                 (JNum (Fin 10)) (JNum (Fin 20))] CursorTracker)
   \<and> mouseX (run_ops [Update (Some \<lparr> innerWidth = 1280, innerHeight = 720 \<rparr>) 8
                 (JNum (Fin 10)) (JNum (Fin 20))] CursorTracker) = Fin 10
   \<and> mouseY (run_ops [Update (Some \<lparr> innerWidth = 1280, innerHeight = 720 \<rparr>) 8
                 (JNum (Fin 10)) (JNum (Fin 20))] CursorTracker) = Fin 20"
  using updatePosition_rejects_invalid
    [of "JNum NaN" "JNum (Fin 50)" "Some \<lparr> innerWidth = 1280, innerHeight = 720 \<rparr>" 16
        "run_ops [Update (Some \<lparr> innerWidth = 1280, innerHeight = 720 \<rparr>) 8
                 (JNum (Fin 10)) (JNum (Fin 20))] CursorTracker"]
  by (simp add: updatePosition_def isValidPosition_def maxWidth_def maxHeight_def
        CursorTracker_def Let_def)

text \<open>
  Claim C7, as amended. An accepted \<open>updatePosition\<close> adds exactly 1 to \<open>stateVersion\<close>.
  On every tracker reached from the constructor, an operation that is not a reset (an
  update, a change of the tracking flag, a recovery from an existing snapshot) never
  lowers \<open>stateVersion\<close>. \<open>resetToOrigin\<close> puts it back to 0.
\<close>
theorem stateVersion_monotonic_without_reset:
  "(fst (updatePosition w now x y t) \<longrightarrow>
      stateVersion (snd (updatePosition w now x y t)) = stateVersion t + 1) \<and>
   (\<not> resets op (run_ops ops CursorTracker) \<longrightarrow>
      stateVersion (run_ops ops CursorTracker)
        \<le> stateVersion (apply_op op (run_ops ops CursorTracker))) \<and>
   stateVersion (resetToOrigin t) = 0"
proof (intro conjI impI)
  assume "fst (updatePosition w now x y t)"
  then have "updatePosition w now x y t = (True, snd (updatePosition w now x y t))"
    by (cases "updatePosition w now x y t") simp
  then show "stateVersion (snd (updatePosition w now x y t)) = stateVersion t + 1"
    by (rule updatePosition_fields)
next
  assume "\<not> resets op (run_ops ops CursorTracker)"
  with tracker_inv_reachable
  show "stateVersion (run_ops ops CursorTracker)
          \<le> stateVersion (apply_op op (run_ops ops CursorTracker))"
    by (rule stateVersion_apply_op_mono)
next
  show "stateVersion (resetToOrigin t) = 0"
    by (simp add: resetToOrigin_def)
qed

theorem stateVersion_monotonic_without_reset_witness:
  "fst (updatePosition None 8 (JNum (Fin 10)) (JNum (Fin 20)) CursorTracker) \<and>
   stateVersion (snd (updatePosition None 8 (JNum (Fin 10)) (JNum (Fin 20)) CursorTracker))
     = stateVersion CursorTracker + 1 \<and>
   \<not> resets (Recover 16) (run_ops [Update None 8 (JNum (Fin 10)) (JNum (Fin 20))] CursorTracker) \<and>
   stateVersion (run_ops [Update None 8 (JNum (Fin 10)) (JNum (Fin 20))] CursorTracker)
     \<le> stateVersion (apply_op (Recover 16)
          (run_ops [Update None 8 (JNum (Fin 10)) (JNum (Fin 20))] CursorTracker))"
  using stateVersion_monotonic_without_reset
    [of None 8 "JNum (Fin 10)" "JNum (Fin 20)" CursorTracker "Recover 16"
        "[Update None 8 (JNum (Fin 10)) (JNum (Fin 20))]"]
  by (simp add: updatePosition_def isValidPosition_def maxWidth_def maxHeight_def
        CursorTracker_def Let_def)

text \<open>Claim C7 as stated fails: a reset after one accepted update takes the version from 1
  back to 0.\<close>
theorem stateVersion_reset_counterexample:
  "stateVersion (run_ops [Update None 8 (JNum (Fin 10)) (JNum (Fin 20)), Reset] CursorTracker)
     < stateVersion (run_ops [Update None 8 (JNum (Fin 10)) (JNum (Fin 20))] CursorTracker)"
  by (simp add: updatePosition_def isValidPosition_def maxWidth_def maxHeight_def
        CursorTracker_def Let_def resetToOrigin_def)

text \<open>
  Claim C8. With a snapshot in \<open>lastValidState\<close>, \<open>recoverState\<close> returns \<open>true\<close> and the
  current position, the previous position and the velocity are the snapshot's. Without
  one it returns \<open>false\<close> and the tracker is reset to the origin: position (0, 0),
  velocity zero, version 0.
\<close>
theorem recoverState_restores_or_resets:
  "(lastValidState t = Some s \<longrightarrow>
      fst (recoverState now t) \<and>
      mouseX (snd (recoverState now t)) = vs_x s \<and>
      mouseY (snd (recoverState now t)) = vs_y s \<and>
      previousX (snd (recoverState now t)) = vs_previousX s \<and>
      previousY (snd (recoverState now t)) = vs_previousY s \<and>
      velocity (snd (recoverState now t)) = vs_velocity s) \<and>
   (lastValidState t = None \<longrightarrow>
      \<not> fst (recoverState now t) \<and>
      snd (recoverState now t) = resetToOrigin t \<and>
      mouseX (snd (recoverState now t)) = Fin 0 \<and>
      mouseY (snd (recoverState now t)) = Fin 0 \<and>
      velocity (snd (recoverState now t)) = \<lparr> vec_x = Fin 0, vec_y = Fin 0 \<rparr> \<and>
      stateVersion (snd (recoverState now t)) = 0)"
  by (simp add: recoverState_def resetToOrigin_def)

theorem recoverState_restores_or_resets_witness:
  "lastValidState (snd (updatePosition None 8 (JNum (Fin 10)) (JNum (Fin 20)) CursorTracker))
     = Some \<lparr> vs_x = Fin 10, vs_y = Fin 20, vs_previousX = Fin 0, vs_previousY = Fin 0,
              vs_velocity = \<lparr> vec_x = Fin 0, vec_y = Fin 0 \<rparr>, vs_timestamp = 8,
              vs_version = 1 \<rparr> \<and>
   fst (recoverState 16 (snd (updatePosition None 8 (JNum (Fin 10)) (JNum (Fin 20)) CursorTracker))) \<and>
   mouseX (snd (recoverState 16
     (snd (updatePosition None 8 (JNum (Fin 10)) (JNum (Fin 20)) CursorTracker)))) = Fin 10 \<and>
   lastValidState CursorTracker = None \<and>
   \<not> fst (recoverState 16 CursorTracker) \<and>
   stateVersion (snd (recoverState 16 CursorTracker)) = 0"
  using recoverState_restores_or_resets
    [of "snd (updatePosition None 8 (JNum (Fin 10)) (JNum (Fin 20)) CursorTracker)"
        "\<lparr> vs_x = Fin 10, vs_y = Fin 20, vs_previousX = Fin 0, vs_previousY = Fin 0,
              vs_velocity = \<lparr> vec_x = Fin 0, vec_y = Fin 0 \<rparr>, vs_timestamp = 8,
              vs_version = 1 \<rparr>" 16]
  by (simp add: updatePosition_def isValidPosition_def maxWidth_def maxHeight_def
        CursorTracker_def Let_def recoverState_def resetToOrigin_def)

text \<open>
  Claim C9. \<open>getCurrentPosition\<close> and \<open>createStateSnapshot\<close> return the current position
  and leave the tracker exactly as it was.
\<close>
theorem getCurrentPosition_leaves_tracker:
  "snd (getCurrentPosition w t) = t \<and>
   cp_x (fst (getCurrentPosition w t)) = mouseX t \<and>
   cp_y (fst (getCurrentPosition w t)) = mouseY t \<and>
   snd (createStateSnapshot t) = t \<and>
   ss_position (fst (createStateSnapshot t)) = \<lparr> vec_x = mouseX t, vec_y = mouseY t \<rparr>"
  by (simp add: getCurrentPosition_def createStateSnapshot_def)

text \<open>
  Claim C10, as amended. After an accepted \<open>updatePosition(x, y)\<close> the previous position is
  the position held before the call. On a tracker reached from the constructor,
  \<open>getMovementDistance\<close> is then the Euclidean distance between the new position and that
  previous one. It is 0 on a tracker that is not initialized, and so on every tracker
  reached from the constructor without an accepted update. The position a tracker reached
  from the constructor holds is the one in its snapshot, and the origin when it has no
  snapshot; an accepted update puts its position into the snapshot, \<open>resetToOrigin\<close>
  removes the snapshot, and no other operation changes it. So the distance is measured
  from the last accepted position when none has been reset away, and from the origin
  otherwise.
\<close>
theorem updatePosition_previous_and_distance:
  "(fst (updatePosition w now x y t) \<longrightarrow>
      previousX (snd (updatePosition w now x y t)) = mouseX t \<and>
      previousY (snd (updatePosition w now x y t)) = mouseY t) \<and>
   (fst (updatePosition w now x y (run_ops ops CursorTracker)) \<longrightarrow>
      (\<exists>a b px py.
         x = JNum (Fin a) \<and> y = JNum (Fin b) \<and>
         mouseX (run_ops ops CursorTracker) = Fin px \<and>
         mouseY (run_ops ops CursorTracker) = Fin py \<and>
         getMovementDistance (snd (updatePosition w now x y (run_ops ops CursorTracker)))
           = Fin (sqrt ((a - px) * (a - px) + (b - py) * (b - py))))) \<and>
   (\<not> isInitialized t \<longrightarrow> getMovementDistance t = Fin 0) \<and>
   (accepts_none ops CursorTracker \<longrightarrow>
      getMovementDistance (run_ops ops CursorTracker) = Fin 0) \<and>
   (case lastValidState (run_ops ops CursorTracker) of
      None \<Rightarrow>
        mouseX (run_ops ops CursorTracker) = Fin 0 \<and>
        mouseY (run_ops ops CursorTracker) = Fin 0
    | Some s \<Rightarrow>
        mouseX (run_ops ops CursorTracker) = vs_x s \<and>
        mouseY (run_ops ops CursorTracker) = vs_y s) \<and>
   (fst (updatePosition w now x y t) \<longrightarrow>
      (\<exists>s. lastValidState (snd (updatePosition w now x y t)) = Some s \<and>
           vs_x s = the_num x \<and> vs_y s = the_num y)) \<and>
   lastValidState (resetToOrigin t) = None \<and>
   (op \<noteq> Reset \<and>
    (\<forall>w' now' x' y'. op = Update w' now' x' y' \<longrightarrow> \<not> fst (updatePosition w' now' x' y' t)) \<longrightarrow>
      lastValidState (apply_op op t) = lastValidState t)"
proof (intro conjI impI)
  assume "fst (updatePosition w now x y t)"
  then have acc: "updatePosition w now x y t = (True, snd (updatePosition w now x y t))"
    by (cases "updatePosition w now x y t") simp
  show "previousX (snd (updatePosition w now x y t)) = mouseX t"
    using acc by (rule updatePosition_fields)
  show "previousY (snd (updatePosition w now x y t)) = mouseY t"
    using acc by (rule updatePosition_fields)
  from updatePosition_fields(8)[OF acc]
  show "\<exists>s. lastValidState (snd (updatePosition w now x y t)) = Some s \<and>
           vs_x s = the_num x \<and> vs_y s = the_num y"
    by blast
next
  have "tracker_inv (run_ops ops CursorTracker)" by (rule tracker_inv_reachable)
  then show "case lastValidState (run_ops ops CursorTracker) of
      None \<Rightarrow>
        mouseX (run_ops ops CursorTracker) = Fin 0 \<and>
        mouseY (run_ops ops CursorTracker) = Fin 0
    | Some s \<Rightarrow>
        mouseX (run_ops ops CursorTracker) = vs_x s \<and>
        mouseY (run_ops ops CursorTracker) = vs_y s"
    by (simp add: tracker_inv_def split: option.splits)
next
  show "lastValidState (resetToOrigin t) = None"
    by (simp add: resetToOrigin_def)
next
  assume h: "op \<noteq> Reset \<and>
    (\<forall>w' now' x' y'. op = Update w' now' x' y' \<longrightarrow> \<not> fst (updatePosition w' now' x' y' t))"
  show "lastValidState (apply_op op t) = lastValidState t"
  proof (cases op)
    case (Update w' now' x' y')
    with h have "updatePosition w' now' x' y' t = (False, t)"
      by (simp add: updatePosition_fst_False)
    with Update show ?thesis by simp
  next
    case (Recover now')
    then show ?thesis
      by (simp add: recoverState_def resetToOrigin_def split: option.splits)
  next
    case Reset
    with h show ?thesis by simp
  next
    case (SetTracking b)
    then show ?thesis by (simp add: setTracking_def)
  qed
next
  let ?t = "run_ops ops CursorTracker"
  let ?t' = "snd (updatePosition w now x y ?t)"
  assume "fst (updatePosition w now x y ?t)"
  then have acc: "updatePosition w now x y ?t = (True, ?t')"
    by (cases "updatePosition w now x y ?t") simp
  from updatePosition_accepted(2)[OF acc] obtain a b
    where ab: "x = JNum (Fin a)" "y = JNum (Fin b)"
    by (rule isValidPosition_finite)
  have "tracker_inv ?t" by (rule tracker_inv_reachable)
  then obtain px py where p: "mouseX ?t = Fin px" "mouseY ?t = Fin py"
    by (cases "mouseX ?t"; cases "mouseY ?t") (simp_all add: tracker_inv_def)
  have f: "mouseX ?t' = Fin a" "mouseY ?t' = Fin b"
    "previousX ?t' = Fin px" "previousY ?t' = Fin py" "isInitialized ?t'"
    using updatePosition_fields[OF acc] ab p by simp_all
  have "\<not> (a - px) * (a - px) + (b - py) * (b - py) < 0"
    by (simp add: not_less)
  with f have "getMovementDistance ?t'
      = Fin (sqrt ((a - px) * (a - px) + (b - py) * (b - py)))"
    by (simp add: getMovementDistance_def Let_def)
  with ab p show "\<exists>a b px py.
         x = JNum (Fin a) \<and> y = JNum (Fin b) \<and>
         mouseX ?t = Fin px \<and> mouseY ?t = Fin py \<and>
         getMovementDistance ?t' = Fin (sqrt ((a - px) * (a - px) + (b - py) * (b - py)))"
    by blast
next
  assume "\<not> isInitialized t"
  then show "getMovementDistance t = Fin 0"
    by (simp add: getMovementDistance_def)
next
  assume "accepts_none ops CursorTracker"
  moreover have "\<not> isInitialized CursorTracker"
    by (simp add: CursorTracker_def)
  ultimately have "\<not> isInitialized (run_ops ops CursorTracker)"
    by (simp add: accepts_none_not_initialized)
  then show "getMovementDistance (run_ops ops CursorTracker) = Fin 0"
    by (simp add: getMovementDistance_def)
qed

theorem updatePosition_previous_and_distance_witness:
  "fst (updatePosition None 16 (JNum (Fin 13)) (JNum (Fin 24))
         (run_ops [Update None 8 (JNum (Fin 10)) (JNum (Fin 20))] CursorTracker)) \<and>
   previousX (snd (updatePosition None 16 (JNum (Fin 13)) (JNum (Fin 24))
         (run_ops [Update None 8 (JNum (Fin 10)) (JNum (Fin 20))] CursorTracker))) = Fin 10 \<and>
   getMovementDistance (snd (updatePosition None 16 (JNum (Fin 13)) (JNum (Fin 24))
         (run_ops [Update None 8 (JNum (Fin 10)) (JNum (Fin 20))] CursorTracker)))
     = Fin (sqrt 25) \<and>
   \<not> isInitialized CursorTracker \<and>
   getMovementDistance CursorTracker = Fin 0 \<and>
   accepts_none [Update None 8 (JNum NaN) (JNum (Fin 50))] CursorTracker \<and>
   getMovementDistance (run_ops [Update None 8 (JNum NaN) (JNum (Fin 50))] CursorTracker) = Fin 0 \<and>
   lastValidState (run_ops [Update None 8 (JNum (Fin 10)) (JNum (Fin 20))] CursorTracker)
     = Some \<lparr> vs_x = Fin 10, vs_y = Fin 20, vs_previousX = Fin 0, vs_previousY = Fin 0,
              vs_velocity = \<lparr> vec_x = Fin 0, vec_y = Fin 0 \<rparr>, vs_timestamp = 8,
              vs_version = 1 \<rparr> \<and>
   mouseX (run_ops [Update None 8 (JNum (Fin 10)) (JNum (Fin 20))] CursorTracker) = Fin 10 \<and>
   lastValidState (apply_op (Recover 16)
       (run_ops [Update None 8 (JNum (Fin 10)) (JNum (Fin 20))] CursorTracker))
     = lastValidState (run_ops [Update None 8 (JNum (Fin 10)) (JNum (Fin 20))] CursorTracker)"
  using updatePosition_previous_and_distance
    [of None 16 "JNum (Fin 13)" "JNum (Fin 24)"
        "run_ops [Update None 8 (JNum (Fin 10)) (JNum (Fin 20))] CursorTracker"
        "[Update None 8 (JNum (Fin 10)) (JNum (Fin 20))]" "Recover 16"]
    updatePosition_previous_and_distance
    [of None 16 "JNum (Fin 13)" "JNum (Fin 24)" CursorTracker
        "[Update None 8 (JNum NaN) (JNum (Fin 50))]" "Recover 16"]
  by (simp add: updatePosition_def isValidPosition_def maxWidth_def maxHeight_def
        CursorTracker_def Let_def recoverState_def)

lemma sqrt_745_neq_5: "sqrt 745 \<noteq> (5::real)"
proof
  assume "sqrt 745 = (5::real)"
  then have "(sqrt 745) ^ 2 = (5::real) ^ 2" by simp
  then show False by simp
qed

text \<open>Claim C10 as stated fails: the updates at (10, 20) and at (13, 24) are both accepted,
  with a reset between them. The distance is then measured from the origin and is
  \<open>sqrt 745\<close>, not the distance 5 between the two most recently accepted positions.\<close>
theorem movement_distance_after_reset_counterexample:
  "fst (updatePosition None 8 (JNum (Fin 10)) (JNum (Fin 20)) CursorTracker) \<and>
   fst (updatePosition None 16 (JNum (Fin 13)) (JNum (Fin 24))
         (run_ops [Update None 8 (JNum (Fin 10)) (JNum (Fin 20)), Reset] CursorTracker)) \<and>
   getMovementDistance
     (run_ops [Update None 8 (JNum (Fin 10)) (JNum (Fin 20)), Reset,
               Update None 16 (JNum (Fin 13)) (JNum (Fin 24))] CursorTracker)
     = Fin (sqrt 745) \<and>
   getMovementDistance
     (run_ops [Update None 8 (JNum (Fin 10)) (JNum (Fin 20)), Reset,
               Update None 16 (JNum (Fin 13)) (JNum (Fin 24))] CursorTracker)
     \<noteq> Fin (sqrt ((13 - 10) * (13 - 10) + (24 - 20) * (24 - 20)))"
  by (simp add: updatePosition_def isValidPosition_def maxWidth_def maxHeight_def
        CursorTracker_def Let_def resetToOrigin_def getMovementDistance_def sqrt_745_neq_5)

section \<open>Properties of the MagicalEffectsSystem\<close>

subsection \<open>The updater\<close>

lemma if_branch_cong: "x = u \<Longrightarrow> y = v \<Longrightarrow> (if b then x else y) = (if b then u else v)"
  by simp

text \<open>No branch of the updater writes \<open>life\<close> or \<open>maxLife\<close>.\<close>

lemma update_bubble_click_life [simp]:
  "ef_life (update_bubble_click e) = ef_life e" "ef_maxLife (update_bubble_click e) = ef_maxLife e"
  by (simp_all add: update_bubble_click_def Let_def)

lemma update_sparkle_bubble_click_life [simp]:
  "ef_life (update_sparkle_bubble_click e) = ef_life e" "ef_maxLife (update_sparkle_bubble_click e) = ef_maxLife e"
  by (simp_all add: update_sparkle_bubble_click_def Let_def)

lemma update_expanding_ring_click_life [simp]:
  "ef_life (update_expanding_ring_click e) = ef_life e" "ef_maxLife (update_expanding_ring_click e) = ef_maxLife e"
  by (simp_all add: update_expanding_ring_click_def Let_def)

lemma update_glow_click_life [simp]:
  "ef_life (update_glow_click e) = ef_life e" "ef_maxLife (update_glow_click e) = ef_maxLife e"
  by (simp_all add: update_glow_click_def Let_def)

lemma update_heart_bubble_click_life [simp]:
  "ef_life (update_heart_bubble_click e) = ef_life e" "ef_maxLife (update_heart_bubble_click e) = ef_maxLife e"
  by (simp_all add: update_heart_bubble_click_def Let_def)

lemma update_bubble_life [simp]:
  "ef_life (update_bubble e) = ef_life e" "ef_maxLife (update_bubble e) = ef_maxLife e"
  by (simp_all add: update_bubble_def Let_def)

lemma update_trail_bubble_life [simp]:
  "ef_life (update_trail_bubble e) = ef_life e" "ef_maxLife (update_trail_bubble e) = ef_maxLife e"
  by (simp_all add: update_trail_bubble_def Let_def if_distrib[of ef_life]
      if_distrib[of ef_maxLife] split del: if_split cong: if_branch_cong)

lemma update_trail_sparkle_life [simp]:
  "ef_life (update_trail_sparkle now e) = ef_life e" "ef_maxLife (update_trail_sparkle now e) = ef_maxLife e"
  by (simp_all add: update_trail_sparkle_def Let_def)

lemma update_sparkle_bubble_life [simp]:
  "ef_life (update_sparkle_bubble now e) = ef_life e" "ef_maxLife (update_sparkle_bubble now e) = ef_maxLife e"
  by (simp_all add: update_sparkle_bubble_def Let_def)

lemma update_expanding_ring_life [simp]:
  "ef_life (update_expanding_ring e) = ef_life e" "ef_maxLife (update_expanding_ring e) = ef_maxLife e"
  by (simp_all add: update_expanding_ring_def Let_def)

lemma update_ambient_life [simp]:
  "ef_life (update_ambient now e) = ef_life e" "ef_maxLife (update_ambient now e) = ef_maxLife e"
  by (simp_all add: update_ambient_def Let_def)

lemma update_burst_trail_life [simp]:
  "ef_life (update_burst_trail e) = ef_life e" "ef_maxLife (update_burst_trail e) = ef_maxLife e"
  by (simp_all add: update_burst_trail_def Let_def)

lemma update_glow_life [simp]:
  "ef_life (update_glow e) = ef_life e" "ef_maxLife (update_glow e) = ef_maxLife e"
  by (simp_all add: update_glow_def Let_def)

lemma update_by_type_life [simp]:
  "ef_life (update_by_type now e) = ef_life e" "ef_maxLife (update_by_type now e) = ef_maxLife e"
  by (simp_all add: update_by_type_def)

lemma updateEffect_life:
  "ef_life (snd (updateEffect now e)) = ef_life e - Fin 1 / ef_maxLife e"
  by (simp add: updateEffect_def Let_def)

lemma updateEffect_maxLife:
  "ef_maxLife (snd (updateEffect now e)) = ef_maxLife e"
  by (simp add: updateEffect_def Let_def)

lemma updateEffect_alive:
  "fst (updateEffect now e) \<longleftrightarrow> Fin 0 < ef_life (snd (updateEffect now e))"
  by (simp add: updateEffect_def Let_def)

lemma animate_effects_same:
  "fst (animate_effects clock i es) = snd (animate_effects clock i es)"
  by (induction es arbitrary: i) (simp_all add: Let_def case_prod_beta)

lemma animate_effects_kept:
  "snd (animate_effects clock i es) =
     map snd (filter fst (map (\<lambda>(k, e). updateEffect (clock k) e) (enumerate i es)))"
  by (induction es arbitrary: i) (simp_all add: Let_def case_prod_beta)

lemma animate_effects_alive:
  "e \<in> set (snd (animate_effects clock i es)) \<Longrightarrow> Fin 0 < ef_life e"
proof (induction es arbitrary: i)
  case Nil
  then show ?case by simp
next
  case (Cons a es)
  obtain alive a' where u: "updateEffect (clock i) a = (alive, a')"
    by (cases "updateEffect (clock i) a")
  obtain drawn kept where r: "animate_effects clock (Suc i) es = (drawn, kept)"
    by (cases "animate_effects clock (Suc i) es")
  show ?case
  proof (cases "alive \<and> e = a'")
    case True
    with updateEffect_alive[of "clock i" a] u show ?thesis by simp
  next
    case False
    with Cons.prems u r have "e \<in> set (snd (animate_effects clock (Suc i) es))"
      by (auto split: if_splits)
    then show ?thesis by (rule Cons.IH)
  qed
qed


lemma has_lifetime_iff:
  "has_lifetime e \<longleftrightarrow> (\<exists>l m. ef_life e = Fin l \<and> ef_maxLife e = Fin m \<and> 0 < m)"
  by (cases "ef_life e"; cases "ef_maxLife e") (simp_all add: has_lifetime_def)

lemma updateEffect_has_lifetime:
  assumes "has_lifetime e"
  shows "ef_life (snd (updateEffect now e)) < ef_life e"
    and "has_lifetime (snd (updateEffect now e))"
    and "\<not> fst (updateEffect now e) \<longleftrightarrow> ef_life (snd (updateEffect now e)) \<le> Fin 0"
proof -
  from assms obtain l m where lm: "ef_life e = Fin l" "ef_maxLife e = Fin m" "0 < m"
    unfolding has_lifetime_iff by blast
  then have l': "ef_life (snd (updateEffect now e)) = Fin (l - 1 / m)"
    by (simp add: updateEffect_life)
  with lm show "ef_life (snd (updateEffect now e)) < ef_life e" by simp
  from l' lm show "has_lifetime (snd (updateEffect now e))"
    by (simp add: has_lifetime_iff updateEffect_maxLife)
  from l' show "\<not> fst (updateEffect now e) \<longleftrightarrow> ef_life (snd (updateEffect now e)) \<le> Fin 0"
    by (simp add: updateEffect_alive not_less)
qed

text \<open>The emitters create effects with a lifetime, \<open>Math.random()\<close> being non-negative.\<close>

lemma emitted_has_lifetime:
  assumes "\<And>k. 0 \<le> r k"
  shows "has_lifetime (trailBubble x y r)" "has_lifetime (trailSparkle x y r)"
    "has_lifetime (trailBubbleLarge x y r)" "has_lifetime (clickBubble x y i r)"
    "has_lifetime (clickRing x y)" "has_lifetime (clickGlow x y)"
    "has_lifetime (hoverSparkle rect i r)"
proof -
  have "0 < r 6 * 60 + 40" "0 < r 6 * 40 + 30" "0 < r 6 * 80 + 60"
    using assms[of 6] by (simp_all add: add_nonneg_pos)
  then show "has_lifetime (trailBubble x y r)" "has_lifetime (trailSparkle x y r)"
    "has_lifetime (trailBubbleLarge x y r)"
    by (simp_all add: has_lifetime_def trailBubble_def trailSparkle_def trailBubbleLarge_def
        empty_effect_def Let_def)
  show "has_lifetime (clickBubble x y i r)" "has_lifetime (clickRing x y)"
    "has_lifetime (clickGlow x y)" "has_lifetime (hoverSparkle rect i r)"
    by (simp_all add: has_lifetime_def clickBubble_def clickRing_def clickGlow_def
        hoverSparkle_def empty_effect_def Let_def)
qed

lemma drop_rnd_nonneg: "(\<And>k. 0 \<le> r k) \<Longrightarrow> 0 \<le> drop_rnd n r k"
  by (simp add: drop_rnd_def)

lemma emitters_keep_lifetime:
  assumes r: "\<And>k. 0 \<le> r k" and s: "\<forall>e \<in> set (mes_effects s). has_lifetime e"
  shows "\<forall>e \<in> set (mes_effects (createMagicalTrail now r x y s)). has_lifetime e"
    and "\<forall>e \<in> set (mes_effects (createClickEffect r x y s)). has_lifetime e"
    and "\<forall>e \<in> set (mes_effects (createHoverEffect r rect s)). has_lifetime e"
    and "\<forall>e \<in> set (mes_effects (createAmbientSparkle win r s)). has_lifetime e"
proof -
  note d = drop_rnd_nonneg[OF r]
  show "\<forall>e \<in> set (mes_effects (createMagicalTrail now r x y s)). has_lifetime e"
    using s by (auto simp: createMagicalTrail_def Let_def emitted_has_lifetime[OF d])
  show "\<forall>e \<in> set (mes_effects (createClickEffect r x y s)). has_lifetime e"
    using s by (auto simp: createClickEffect_def Let_def emitted_has_lifetime[OF d])
  show "\<forall>e \<in> set (mes_effects (createHoverEffect r rect s)). has_lifetime e"
    using s by (auto simp: createHoverEffect_def Let_def emitted_has_lifetime[OF d])
  have "0 < r 5 * 120 + 60"
    using r[of 5] by (simp add: add_nonneg_pos)
  then show "\<forall>e \<in> set (mes_effects (createAmbientSparkle win r s)). has_lifetime e"
    using s by (auto simp: createAmbientSparkle_def Let_def has_lifetime_def empty_effect_def)
qed

lemma animate_drawn:
  "fst (animate clock s) = mes_effects (snd (animate clock s))"
  "mes_effects (snd (animate clock s)) =
     map snd (filter fst (map (\<lambda>(k, e). updateEffect (clock k) e) (enumerate 0 (mes_effects s))))"
  using animate_effects_same[of clock 0 "mes_effects s"]
    animate_effects_kept[of clock 0 "mes_effects s"]
  by (simp_all add: animate_def case_prod_beta)

lemma animate_alive:
  "e \<in> set (fst (animate clock s)) \<Longrightarrow> Fin 0 < ef_life e"
  using animate_effects_alive[of e clock 0 "mes_effects s"]
    animate_effects_same[of clock 0 "mes_effects s"]
  by (simp add: animate_def case_prod_beta)

text \<open>
  Claim C4, as amended. In the MagicalEffectsSystem, \<open>updateEffect\<close> takes \<open>1 / maxLife\<close>
  from the \<open>life\<close> of an effect with a lifetime, which strictly decreases it, and the
  effect keeps its lifetime; it reports the effect alive exactly when the new \<open>life\<close> is
  above 0, so an effect with a lifetime is dropped exactly when its \<open>life\<close> has reached 0
  or less. \<open>animate\<close> keeps exactly the effects reported alive and hands exactly those to
  \<open>drawEffect\<close>: every effect drawn has a \<open>life\<close> above 0. Every effect the emitters of
  this system create has a lifetime.
\<close>
theorem updateEffect_life_decreases:
  "(has_lifetime e \<longrightarrow>
      ef_life (snd (updateEffect now e)) = ef_life e - Fin 1 / ef_maxLife e \<and>
      ef_life (snd (updateEffect now e)) < ef_life e \<and>
      has_lifetime (snd (updateEffect now e)) \<and>
      (\<not> fst (updateEffect now e) \<longleftrightarrow> ef_life (snd (updateEffect now e)) \<le> Fin 0)) \<and>
   (fst (updateEffect now e) \<longleftrightarrow> Fin 0 < ef_life (snd (updateEffect now e))) \<and>
   fst (animate clock s) = mes_effects (snd (animate clock s)) \<and>
   mes_effects (snd (animate clock s)) =
     map snd (filter fst (map (\<lambda>(k, e). updateEffect (clock k) e)
       (enumerate 0 (mes_effects s)))) \<and>
   (\<forall>e \<in> set (fst (animate clock s)). Fin 0 < ef_life e) \<and>
   ((\<forall>k. 0 \<le> r k) \<and> (\<forall>e \<in> set (mes_effects s). has_lifetime e) \<longrightarrow>
      (\<forall>e \<in> set (mes_effects (createMagicalTrail now r x y s)). has_lifetime e) \<and>
      (\<forall>e \<in> set (mes_effects (createClickEffect r x y s)). has_lifetime e) \<and>
      (\<forall>e \<in> set (mes_effects (createHoverEffect r rect s)). has_lifetime e) \<and>
      (\<forall>e \<in> set (mes_effects (createAmbientSparkle win r s)). has_lifetime e))"
proof -
  have A: "has_lifetime e \<longrightarrow>
      ef_life (snd (updateEffect now e)) = ef_life e - Fin 1 / ef_maxLife e \<and>
      ef_life (snd (updateEffect now e)) < ef_life e \<and>
      has_lifetime (snd (updateEffect now e)) \<and>
      (\<not> fst (updateEffect now e) \<longleftrightarrow> ef_life (snd (updateEffect now e)) \<le> Fin 0)"
    using updateEffect_has_lifetime[of e now] updateEffect_life[of now e] by blast
  have B: "fst (updateEffect now e) \<longleftrightarrow> Fin 0 < ef_life (snd (updateEffect now e))"
    by (rule updateEffect_alive)
  have C: "fst (animate clock s) = mes_effects (snd (animate clock s))"
    by (rule animate_drawn)
  have D: "mes_effects (snd (animate clock s)) =
     map snd (filter fst (map (\<lambda>(k, e). updateEffect (clock k) e)
       (enumerate 0 (mes_effects s))))"
    by (rule animate_drawn)
  have E: "\<forall>e \<in> set (fst (animate clock s)). Fin 0 < ef_life e"
    by (blast intro: animate_alive)
  have F: "(\<forall>k. 0 \<le> r k) \<and> (\<forall>e \<in> set (mes_effects s). has_lifetime e) \<longrightarrow>
      (\<forall>e \<in> set (mes_effects (createMagicalTrail now r x y s)). has_lifetime e) \<and>
      (\<forall>e \<in> set (mes_effects (createClickEffect r x y s)). has_lifetime e) \<and>
      (\<forall>e \<in> set (mes_effects (createHoverEffect r rect s)). has_lifetime e) \<and>
      (\<forall>e \<in> set (mes_effects (createAmbientSparkle win r s)). has_lifetime e)"
  proof (intro impI, elim conjE)
    assume r: "\<forall>k. 0 \<le> r k" and s: "\<forall>e \<in> set (mes_effects s). has_lifetime e"
    from r have r': "\<And>k. 0 \<le> r k" by simp
    from emitters_keep_lifetime[OF r' s]
    show "(\<forall>e \<in> set (mes_effects (createMagicalTrail now r x y s)). has_lifetime e) \<and>
      (\<forall>e \<in> set (mes_effects (createClickEffect r x y s)). has_lifetime e) \<and>
      (\<forall>e \<in> set (mes_effects (createHoverEffect r rect s)). has_lifetime e) \<and>
      (\<forall>e \<in> set (mes_effects (createAmbientSparkle win r s)). has_lifetime e)"
      by simp
  qed
  from A B C D E F show ?thesis by (intro conjI)
qed


text \<open>The central glow of a click at (100, 100): \<open>life\<close> 1 and \<open>maxLife\<close> 20, so one update
  leaves \<open>life\<close> at 19/20 and the effect alive. The eight effects of that click have a
  lifetime, as have the effects after a mouse move, and a frame draws only effects with a
  \<open>life\<close> above 0.\<close>
theorem updateEffect_life_decreases_witness:
  "has_lifetime (clickGlow (Fin 100) (Fin 100)) \<and>
   ef_life (clickGlow (Fin 100) (Fin 100)) = Fin 1 \<and>
   ef_life (snd (updateEffect 40 (clickGlow (Fin 100) (Fin 100)))) = Fin (19 / 20) \<and>
   fst (updateEffect 40 (clickGlow (Fin 100) (Fin 100))) \<and>
   has_lifetime (snd (updateEffect 40 (clickGlow (Fin 100) (Fin 100)))) \<and>
   list_all has_lifetime (mes_effects
     (createClickEffect (\<lambda>_. 1 / 2) (Fin 100) (Fin 100) (MagicalEffectsSystem False))) \<and>
   list_all has_lifetime (mes_effects (createMagicalTrail 40 (\<lambda>_. 1 / 2) (Fin 100) (Fin 100)
     (createClickEffect (\<lambda>_. 1 / 2) (Fin 100) (Fin 100) (MagicalEffectsSystem False)))) \<and>
   list_all (\<lambda>e. Fin 0 < ef_life e) (fst (animate (\<lambda>_. 0)
     (createClickEffect (\<lambda>_. 1 / 2) (Fin 100) (Fin 100) (MagicalEffectsSystem False))))"
proof -
  have nonneg: "\<And>k. 0 \<le> (\<lambda>_. 1 / 2 :: real) k" by simp
  have h: "\<forall>e \<in> set (mes_effects
     (createClickEffect (\<lambda>_. 1 / 2) (Fin 100) (Fin 100) (MagicalEffectsSystem False))).
       has_lifetime e"
    by (rule emitters_keep_lifetime(2)[OF nonneg]) (simp add: MagicalEffectsSystem_def)
  have g: "has_lifetime (clickGlow (Fin 100) (Fin 100))"
    by (simp add: has_lifetime_def clickGlow_def empty_effect_def)
  from updateEffect_life_decreases
    [of "clickGlow (Fin 100) (Fin 100)" 40 "\<lambda>_. 0"
        "createClickEffect (\<lambda>_. 1 / 2) (Fin 100) (Fin 100) (MagicalEffectsSystem False)"
        "\<lambda>_. 1 / 2" "Fin 100" "Fin 100"
        "\<lparr> rect_left = 0, rect_top = 0, rect_width = 10, rect_height = 10 \<rparr>"
        "\<lparr> innerWidth = 1280, innerHeight = 720 \<rparr>"] g h
  show ?thesis
    by (simp add: list_all_iff clickGlow_def empty_effect_def)
qed

subsection \<open>The updater of the ParticleSystem\<close>

text \<open>\<open>updateParticle\<close> never writes \<open>life\<close>, and a particle is created with \<open>life = 1\<close>.\<close>

lemma updateParticle_life [simp]:
  "p_life (updateParticle s scrollY nowGlow nowFloat p) = p_life p"
  by (simp add: updateParticle_def parallaxMovement_def heroHoverEffect_def typeProperties_def
      floatingMotion_def wrapX_def wrapY_def Let_def)

lemma createParticle_life [simp]: "p_life (fst (createParticle s r)) = Fin 1"
  by (simp add: createParticle_def Let_def)

text \<open>Claim C4 as stated fails in the ParticleSystem, where a particle keeps its \<open>life\<close>
  from frame to frame and never leaves the list. A system of one particle: its \<open>life\<close> is
  1 after the constructor and still 1 on the particle the next frame hands to the
  renderer.\<close>
theorem particle_life_counterexample:
  "map p_life (ps_particles
      (ParticleSystem \<lparr> innerWidth = 1280, innerHeight = 720 \<rparr> (Some 1) None False
         (\<lambda>_. 1 / 2) 0 (\<lambda>_. (0, 0)))) = [Fin 1] \<and>
   map p_life (fst (ps_animate 0 (\<lambda>_. (16, 16))
      (ParticleSystem \<lparr> innerWidth = 1280, innerHeight = 720 \<rparr> (Some 1) None False
         (\<lambda>_. 1 / 2) 0 (\<lambda>_. (0, 0))))) = [Fin 1]"
  by (simp add: ParticleSystem_def createParticles_def ps_animate_def countOption_def
      count_or_def Let_def case_prod_beta)


subsection \<open>The click emitter\<close>

lemma upt_6: "[0..<6] = [0, 1, 2, 3, 4, 5]"
  by (simp add: upt_rec)

lemma clickBubble_fields [simp]:
  "ef_type (clickBubble x y i r) = ''bubble-click''"
  "ef_life (clickBubble x y i r) = Fin 1"
  "ef_maxLife (clickBubble x y i r) = Fin 30"
  by (simp_all add: clickBubble_def empty_effect_def Let_def)

lemma clickRing_fields [simp]:
  "ef_type (clickRing x y) = ''expanding-ring-click''"
  "ef_life (clickRing x y) = Fin 1"
  "ef_maxLife (clickRing x y) = Fin 25"
  by (simp_all add: clickRing_def empty_effect_def)

lemma clickGlow_fields [simp]:
  "ef_type (clickGlow x y) = ''glow-click''"
  "ef_life (clickGlow x y) = Fin 1"
  "ef_maxLife (clickGlow x y) = Fin 20"
  by (simp_all add: clickGlow_def empty_effect_def)

lemma createClickEffect_effects:
  "\<not> mes_reducedMotion s \<Longrightarrow>
   mes_effects (createClickEffect r x y s) =
     filter (\<lambda>effect. \<not> js_includes (ef_type effect) ''-click'') (mes_effects s) @
     map (\<lambda>i. clickBubble x y i (drop_rnd (4 * i) r)) [0..<6] @ [clickRing x y, clickGlow x y]"
  by (simp add: createClickEffect_def Let_def)

text \<open>
  Claim C5, as amended. With motion not reduced, \<open>createClickEffect(x, y)\<close> of the
  MagicalEffectsSystem keeps the effects that are not click effects and appends exactly
  eight new ones: six \<open>bubble-click\<close> effects of the ring, one \<open>expanding-ring-click\<close> and
  one \<open>glow-click\<close>. Each is created with \<open>life = 1\<close>; the \<open>maxLife\<close> of the ring bubbles
  is 30, that of the expanding ring 25, that of the glow 20.
\<close>
theorem createClickEffect_creates_eight:
  "\<not> mes_reducedMotion s \<longrightarrow>
     (let kept = filter (\<lambda>effect. \<not> js_includes (ef_type effect) ''-click'') (mes_effects s);
          created = drop (length kept) (mes_effects (createClickEffect r x y s))
      in take (length kept) (mes_effects (createClickEffect r x y s)) = kept \<and>
         length created = 8 \<and>
         map ef_type created =
           replicate 6 ''bubble-click'' @ [''expanding-ring-click'', ''glow-click''] \<and>
         map ef_life created = replicate 8 (Fin 1) \<and>
         map ef_maxLife created = replicate 6 (Fin 30) @ [Fin 25, Fin 20])"
proof
  assume "\<not> mes_reducedMotion s"
  note eq = createClickEffect_effects[OF this, of r x y]
  show "let kept = filter (\<lambda>effect. \<not> js_includes (ef_type effect) ''-click'') (mes_effects s);
          created = drop (length kept) (mes_effects (createClickEffect r x y s))
      in take (length kept) (mes_effects (createClickEffect r x y s)) = kept \<and>
         length created = 8 \<and>
         map ef_type created =
           replicate 6 ''bubble-click'' @ [''expanding-ring-click'', ''glow-click''] \<and>
         map ef_life created = replicate 8 (Fin 1) \<and>
         map ef_maxLife created = replicate 6 (Fin 30) @ [Fin 25, Fin 20]"
    unfolding eq Let_def
    by (simp add: upt_6 numeral_eq_Suc)
qed

text \<open>The click at (100, 100) on a freshly constructed system.\<close>
theorem createClickEffect_creates_eight_witness:
  "\<not> mes_reducedMotion (MagicalEffectsSystem False) \<and>
   length (mes_effects (createClickEffect (\<lambda>_. 1 / 2) (Fin 100) (Fin 100)
      (MagicalEffectsSystem False))) = 8 \<and>
   map ef_type (mes_effects (createClickEffect (\<lambda>_. 1 / 2) (Fin 100) (Fin 100)
      (MagicalEffectsSystem False))) =
     [''bubble-click'', ''bubble-click'', ''bubble-click'', ''bubble-click'', ''bubble-click'',
      ''bubble-click'', ''expanding-ring-click'', ''glow-click''] \<and>
   map ef_life (mes_effects (createClickEffect (\<lambda>_. 1 / 2) (Fin 100) (Fin 100)
      (MagicalEffectsSystem False))) =
     [Fin 1, Fin 1, Fin 1, Fin 1, Fin 1, Fin 1, Fin 1, Fin 1] \<and>
   map ef_maxLife (mes_effects (createClickEffect (\<lambda>_. 1 / 2) (Fin 100) (Fin 100)
      (MagicalEffectsSystem False))) =
     [Fin 30, Fin 30, Fin 30, Fin 30, Fin 30, Fin 30, Fin 25, Fin 20]"
  using createClickEffect_creates_eight
    [of "MagicalEffectsSystem False" "\<lambda>_. 1 / 2" "Fin 100" "Fin 100"]
  by (simp add: MagicalEffectsSystem_def Let_def numeral_eq_Suc)

text \<open>Claim C5 as stated fails: the first ring bubble of the click at (100, 100) is created
  with \<open>life = 1\<close>, which is not its \<open>maxLife = 30\<close>.\<close>
theorem createClickEffect_life_counterexample:
  "ef_life (mes_effects (createClickEffect (\<lambda>_. 1 / 2) (Fin 100) (Fin 100)
      (MagicalEffectsSystem False)) ! 0) = Fin 1 \<and>
   ef_maxLife (mes_effects (createClickEffect (\<lambda>_. 1 / 2) (Fin 100) (Fin 100)
      (MagicalEffectsSystem False)) ! 0) = Fin 30"
  by (simp add: createClickEffect_effects MagicalEffectsSystem_def upt_6)

subsection \<open>The trail emitter\<close>

lemma createMagicalTrail_fields [simp]:
  "mes_reducedMotion (createMagicalTrail now r x y s) = mes_reducedMotion s"
  "mes_lastMouseTime (createMagicalTrail now r x y s) =
     (if mes_reducedMotion s \<or> now - mes_lastMouseTime s < 40 then mes_lastMouseTime s else now)"
  "length (mes_effects (createMagicalTrail now r x y s)) =
     (if mes_reducedMotion s \<or> now - mes_lastMouseTime s < 40 then length (mes_effects s)
      else length (mes_effects s) + 6 + (if r 68 < 0.4 then 1 else 0))"
  by (simp_all add: createMagicalTrail_def Let_def)

text \<open>Claim C1 as stated fails for \<open>MagicalEffectsSystem.effects\<close>: nine mouse moves 40 ms
  apart, with no frame in between, leave 54 effects in the list; nothing is evicted.\<close>
theorem createMagicalTrail_capacity_counterexample:
  "length (mes_effects
     (fold (\<lambda>now. createMagicalTrail now (\<lambda>_. 1 / 2) (Fin 100) (Fin 100))
        [40, 80, 120, 160, 200, 240, 280, 320, 360] (MagicalEffectsSystem False))) = 54"
  by (simp add: MagicalEffectsSystem_def)

text \<open>Claim C6 as stated fails for the emitters of the MagicalEffectsSystem, which do not
  look at the position: a click at (-5, -5) appends its eight effects.\<close>
theorem createClickEffect_invalid_position_counterexample:
  "length (mes_effects (createClickEffect (\<lambda>_. 1 / 2) (Fin (- 5)) (Fin (- 5))
      (MagicalEffectsSystem False))) = 8"
  by (simp add: createClickEffect_effects MagicalEffectsSystem_def)


section \<open>Properties of the EffectManager\<close>

lemma addEffect_inv:
  assumes "manager_inv m"
  shows "\<exists>m'. addEffect effect m = Inr m' \<and> manager_inv m' \<and>
           em_reducedMotion m' = em_reducedMotion m \<and>
           em_activeEffects m' =
             (if length (em_activeEffects m) = 50 then tl (em_activeEffects m) @ [effect]
              else em_activeEffects m @ [effect])"
proof (cases "length (em_activeEffects m) = 50")
  case True
  then obtain oldest rest where "em_activeEffects m = oldest # rest"
    by (cases "em_activeEffects m") simp_all
  with True assms show ?thesis
    by (simp add: addEffect_def manager_inv_def)
next
  case False
  with assms show ?thesis
    by (simp add: addEffect_def manager_inv_def)
qed

lemma generateEffectId_inv [simp]:
  "manager_inv (snd (generateEffectId dateNow m)) = manager_inv m"
  "em_reducedMotion (snd (generateEffectId dateNow m)) = em_reducedMotion m"
  by (simp_all add: generateEffectId_def manager_inv_def Let_def)

lemma effectPosition_manager [simp]: "snd (effectPosition win x y m) = m"
  by (cases "em_cursorTracker m")
     (simp_all add: effectPosition_def getCurrentPosition_def Let_def)

lemma effectPosition_given:
  "x \<noteq> JUndefined \<Longrightarrow> y \<noteq> JUndefined \<Longrightarrow> fst (effectPosition win x y m) = (x, y)"
  by (cases "em_cursorTracker m")
     (simp_all add: effectPosition_def getCurrentPosition_def Let_def)

lemma createRippleEffect_rejected:
  "em_reducedMotion m \<or>
   \<not> em_isValidPosition win (fst (fst (effectPosition win x y m)))
       (snd (fst (effectPosition win x y m))) \<Longrightarrow>
   createRippleEffect win now dateNow x y options m = Inr (None, m)"
  by (auto simp: createRippleEffect_def case_prod_beta Let_def)

lemma createSparkleEffect_rejected:
  "em_reducedMotion m \<or>
   \<not> em_isValidPosition win (fst (fst (effectPosition win x y m)))
       (snd (fst (effectPosition win x y m))) \<Longrightarrow>
   createSparkleEffect win now dateNow r x y options m = Inr ([], m)"
  by (auto simp: createSparkleEffect_def case_prod_beta Let_def)

lemma em_createClickEffect_rejected:
  "em_reducedMotion m \<or>
   \<not> em_isValidPosition win (fst (fst (effectPosition win x y m)))
       (snd (fst (effectPosition win x y m))) \<Longrightarrow>
   em_createClickEffect win now dateNow r x y options m =
     Inr (\<lparr> ripple = None, sparkles = [] \<rparr>, m)"
proof -
  assume rejected: "em_reducedMotion m \<or>
   \<not> em_isValidPosition win (fst (fst (effectPosition win x y m)))
       (snd (fst (effectPosition win x y m)))"
  note createRippleEffect_rejected[OF rejected, simp] createSparkleEffect_rejected[OF rejected, simp]
  show ?thesis
    by (simp add: em_createClickEffect_def)
qed

lemma createRippleEffect_inv:
  assumes "manager_inv m"
  shows "\<exists>rippleId m'. createRippleEffect win now dateNow x y options m = Inr (rippleId, m') \<and>
           manager_inv m' \<and> em_reducedMotion m' = em_reducedMotion m"
proof (cases "em_reducedMotion m \<or>
    \<not> em_isValidPosition win (fst (fst (effectPosition win x y m)))
        (snd (fst (effectPosition win x y m)))")
  case True
  with assms show ?thesis
    by (simp add: createRippleEffect_rejected)
next
  case False
  let ?id = "fst (generateEffectId dateNow m)"
  let ?pos = "fst (effectPosition win x y m)"
  from assms have "manager_inv (snd (generateEffectId dateNow m))" by simp
  from addEffect_inv[OF this,
      of "rippleEffect now ?id (the_num (fst ?pos)) (the_num (snd ?pos)) options"]
  obtain m' where
    "addEffect (rippleEffect now ?id (the_num (fst ?pos)) (the_num (snd ?pos)) options)
       (snd (generateEffectId dateNow m)) = Inr m'"
    "manager_inv m'" "em_reducedMotion m' = em_reducedMotion m"
    by auto
  with False show ?thesis
    by (simp add: createRippleEffect_def case_prod_beta Let_def)
qed

lemma sparkleLoop_inv:
  "manager_inv m \<Longrightarrow>
   \<exists>ids m'. sparkleLoop now dateNow ex ey options sparkleCount todo i r m = Inr (ids, m') \<and>
      manager_inv m' \<and> em_reducedMotion m' = em_reducedMotion m"
proof (induction todo arbitrary: i r m)
  case 0
  then show ?case by simp
next
  case (Suc todo)
  let ?m1 = "snd (generateEffectId dateNow m)"
  let ?id = "fst (generateEffectId dateNow m)"
  let ?sp = "sparkleEffect now ?id ex ey options sparkleCount i r"
  from Suc.prems have "manager_inv ?m1" by simp
  from addEffect_inv[OF this, of "fst ?sp"] obtain m2 where
    m2: "addEffect (fst ?sp) ?m1 = Inr m2" "manager_inv m2"
      "em_reducedMotion m2 = em_reducedMotion m"
    by auto
  from Suc.IH[OF m2(2), of "Suc i" "drop_rnd (snd ?sp) r"] obtain ids m3 where
    "sparkleLoop now dateNow ex ey options sparkleCount todo (Suc i) (drop_rnd (snd ?sp) r) m2
       = Inr (ids, m3)" "manager_inv m3" "em_reducedMotion m3 = em_reducedMotion m2"
    by auto
  with m2 show ?case
    by (simp add: case_prod_beta Let_def)
qed

lemma createSparkleEffect_inv:
  assumes "manager_inv m"
  shows "\<exists>ids m'. createSparkleEffect win now dateNow r x y options m = Inr (ids, m') \<and>
           manager_inv m' \<and> em_reducedMotion m' = em_reducedMotion m"
proof (cases "em_reducedMotion m \<or>
    \<not> em_isValidPosition win (fst (fst (effectPosition win x y m)))
        (snd (fst (effectPosition win x y m)))")
  case True
  with assms show ?thesis
    by (simp add: createSparkleEffect_rejected)
next
  case False
  with sparkleLoop_inv[OF assms] show ?thesis
    by (simp add: createSparkleEffect_def case_prod_beta Let_def)
qed

lemma em_createClickEffect_inv:
  assumes "manager_inv m"
  shows "\<exists>res m'. em_createClickEffect win now dateNow r x y options m = Inr (res, m') \<and>
           manager_inv m' \<and> em_reducedMotion m' = em_reducedMotion m"
proof (cases "em_reducedMotion m")
  case True
  with assms show ?thesis
    by (simp add: em_createClickEffect_def)
next
  case False
  let ?ro = "\<lparr> opt_duration = Some (num_or (opt_rippleDuration options) (Fin 800)),
                 opt_maxRadius = Some (num_or (opt_rippleRadius options) (Fin 150)),
                 opt_color = Some (str_or (opt_rippleColor options) ''rgba(139, 92, 246, 0.6)''),
                 opt_lineWidth = None, opt_count = None, opt_distance = None,
                 opt_size = None \<rparr>"
  from createRippleEffect_inv[OF assms, of win now dateNow x y ?ro] obtain rippleId m1 where
    m1: "createRippleEffect win now dateNow x y ?ro m = Inr (rippleId, m1)"
      "manager_inv m1" "em_reducedMotion m1 = em_reducedMotion m"
    by auto
  let ?so = "\<lparr> opt_duration = Some (num_or (opt_sparkleDuration options) (Fin 600)),
                 opt_maxRadius = None,
                 opt_color = opt_sparkleColor options,
                 opt_lineWidth = None,
                 opt_count = Some (count_or (opt_sparkleCount options) 6),
                 opt_distance = Some (num_or (opt_sparkleDistance options) (Fin 40)),
                 opt_size = None \<rparr>"
  from createSparkleEffect_inv[OF m1(2), of win now dateNow r x y ?so] obtain ids m2 where
    "createSparkleEffect win now dateNow r x y ?so m1 = Inr (ids, m2)"
    "manager_inv m2" "em_reducedMotion m2 = em_reducedMotion m1"
    by auto
  with m1 False show ?thesis
    by (simp add: em_createClickEffect_def)
qed

lemma updateEffects_inv: "manager_inv m \<Longrightarrow> manager_inv (updateEffects currentTime cleanupTime m)"
  by (auto simp: updateEffects_def performCleanup_def manager_inv_def Let_def
      intro: le_trans[OF length_filter_le])

lemma remove_first_length: "length (remove_first effectId effects) \<le> length effects"
  by (induction effects) auto

lemma removeEffect_inv: "manager_inv m \<Longrightarrow> manager_inv (snd (removeEffect effectId m))"
  using remove_first_length[of effectId "em_activeEffects m"]
  by (auto simp: removeEffect_def manager_inv_def)

lemma apply_manager_op_inv:
  assumes "manager_inv m"
  shows "\<exists>m'. apply_manager_op op m = Inr m' \<and> manager_inv m'"
proof (cases op)
  case (CreateRipple win now dateNow x y options)
  with createRippleEffect_inv[OF assms, of win now dateNow x y options] show ?thesis
    by auto
next
  case (CreateSparkle win now dateNow r x y options)
  with createSparkleEffect_inv[OF assms, of win now dateNow r x y options] show ?thesis
    by auto
next
  case (CreateClick win now dateNow r x y options)
  with em_createClickEffect_inv[OF assms, of win now dateNow r x y options] show ?thesis
    by auto
next
  case (UpdateEffects currentTime cleanupTime)
  with updateEffects_inv[OF assms] show ?thesis by simp
next
  case ClearAllEffects
  with assms show ?thesis by (simp add: clearAllEffects_def manager_inv_def)
next
  case (RemoveEffect effectId)
  with removeEffect_inv[OF assms] show ?thesis by simp
next
  case (MotionChange matches)
  with assms show ?thesis
    by (simp add: em_onMotionChange_def clearAllEffects_def manager_inv_def Let_def)
qed

lemma run_manager_ops_inv:
  "manager_inv m \<Longrightarrow> \<exists>m'. run_manager_ops ops m = Inr m' \<and> manager_inv m'"
proof (induction ops arbitrary: m)
  case Nil
  then show ?case by simp
next
  case (Cons op ops)
  from apply_manager_op_inv[OF Cons.prems, of op] obtain m1 where
    "apply_manager_op op m = Inr m1" "manager_inv m1" by auto
  with Cons.IH[of m1] show ?case by simp
qed

lemma EffectManager_inv: "manager_inv (EffectManager cursorTracker reduced currentTime cleanupTime)"
  unfolding EffectManager_def
  by (rule updateEffects_inv) (simp add: manager_inv_def)

text \<open>
  Claim C1, as amended. On a manager with capacity 50 and at most 50 effects, \<open>addEffect\<close>
  returns, leaves at most 50 effects and appends the new effect at the end; when the list
  is full (50 effects) the oldest, first effect is removed first. Every sequence of calls
  on a manager made by the constructor (the three emitters, the frame update, clearing,
  removing, the reduced-motion listener) returns and leaves at most 50 effects in
  \<open>activeEffects\<close>.
\<close>
theorem addEffect_keeps_capacity:
  "(em_maxEffects m = 50 \<and> length (em_activeEffects m) \<le> 50 \<longrightarrow>
      (\<exists>m'. addEffect effect m = Inr m' \<and>
            length (em_activeEffects m') \<le> 50 \<and>
            em_activeEffects m' =
              (if length (em_activeEffects m) = 50 then tl (em_activeEffects m) @ [effect]
               else em_activeEffects m @ [effect]))) \<and>
   (\<exists>m'. run_manager_ops ops (EffectManager cursorTracker reduced currentTime cleanupTime)
            = Inr m' \<and>
          em_maxEffects m' = 50 \<and> length (em_activeEffects m') \<le> 50)"
proof (intro conjI impI)
  assume "em_maxEffects m = 50 \<and> length (em_activeEffects m) \<le> 50"
  then have "manager_inv m" by (simp add: manager_inv_def)
  from addEffect_inv[OF this, of effect]
  show "\<exists>m'. addEffect effect m = Inr m' \<and>
            length (em_activeEffects m') \<le> 50 \<and>
            em_activeEffects m' =
              (if length (em_activeEffects m) = 50 then tl (em_activeEffects m) @ [effect]
               else em_activeEffects m @ [effect])"
    unfolding manager_inv_def by blast
next
  from run_manager_ops_inv[OF EffectManager_inv]
  show "\<exists>m'. run_manager_ops ops (EffectManager cursorTracker reduced currentTime cleanupTime)
            = Inr m' \<and>
          em_maxEffects m' = 50 \<and> length (em_activeEffects m') \<le> 50"
    unfolding manager_inv_def by blast
qed

lemma upt_1_51: "[1..<51] = 1 # [2..<51]"
  by (simp add: upt_rec)

text \<open>A full list with the identifiers 1 to 50: adding the effect 51 removes the effect 1
  and leaves 2 to 51.\<close>
theorem addEffect_keeps_capacity_witness:
  "em_maxEffects ((EffectManager None False 0 0)
      \<lparr> em_activeEffects := map (\<lambda>k. empty_managerEffect\<lparr> me_id := (k, 0) \<rparr>) [1..<51] \<rparr>) = 50 \<and>
   length (em_activeEffects ((EffectManager None False 0 0)
      \<lparr> em_activeEffects := map (\<lambda>k. empty_managerEffect\<lparr> me_id := (k, 0) \<rparr>) [1..<51] \<rparr>)) = 50 \<and>
   (\<exists>m'. addEffect (empty_managerEffect\<lparr> me_id := (51, 0) \<rparr>)
            ((EffectManager None False 0 0)
               \<lparr> em_activeEffects :=
                    map (\<lambda>k. empty_managerEffect\<lparr> me_id := (k, 0) \<rparr>) [1..<51] \<rparr>) = Inr m' \<and>
          length (em_activeEffects m') \<le> 50 \<and>
          em_activeEffects m' =
            map (\<lambda>k. empty_managerEffect\<lparr> me_id := (k, 0) \<rparr>) [2..<51] @
              [empty_managerEffect\<lparr> me_id := (51, 0) \<rparr>])"
  using addEffect_keeps_capacity
    [of "(EffectManager None False 0 0)
      \<lparr> em_activeEffects := map (\<lambda>k. empty_managerEffect\<lparr> me_id := (k, 0) \<rparr>) [1..<51] \<rparr>"
        "empty_managerEffect\<lparr> me_id := (51, 0) \<rparr>" "[]" None False 0 0]
  unfolding upt_1_51
  by (simp add: EffectManager_def updateEffects_def Let_def)


lemma em_isValidPosition_iff:
  "em_isValidPosition win x y \<longleftrightarrow>
     (\<exists>a b. x = JNum (Fin a) \<and> y = JNum (Fin b) \<and>
            0 \<le> a \<and> 0 \<le> b \<and> a \<le> innerWidth win * 2 \<and> b \<le> innerHeight win * 2)"
proof -
  have "em_isValidPosition win x y = isValidPosition (Some win) x y"
    by (simp add: em_isValidPosition_def isValidPosition_def maxWidth_def maxHeight_def)
  then show ?thesis
    by (simp add: isValidPosition_iff maxWidth_def maxHeight_def)
qed

lemma magical_emitters_reduced:
  assumes "mes_reducedMotion s"
  shows "createMagicalTrail now r x y s = s" "createClickEffect r x y s = s"
    "createHoverEffect r rect s = s" "createAmbientSparkle win r s = s"
    "ambientInterval win r s = s"
  using assms
  by (simp_all add: createMagicalTrail_def createClickEffect_def createHoverEffect_def
      createAmbientSparkle_def ambientInterval_def)

text \<open>
  Claim C6, as amended. A call of an emitter of the EffectManager (\<open>createRippleEffect\<close>,
  \<open>createSparkleEffect\<close>, \<open>createClickEffect\<close>) made while motion is reduced, or whose
  position fails \<open>isValidPosition\<close>, returns the empty result (\<open>null\<close>, the empty list, the
  pair of both) and leaves the manager, its effect list and its tracker as they were; a
  given position that is not a finite number, is negative or lies beyond twice the window
  is such a position. A call of an emitter of the MagicalEffectsSystem, or a click on the
  ScreenSparklesSystem, made while motion is reduced leaves the system as it was.
\<close>
theorem rejected_emitter_calls_change_nothing:
  "(em_reducedMotion m \<or>
    \<not> em_isValidPosition win (fst (fst (effectPosition win x y m)))
        (snd (fst (effectPosition win x y m))) \<longrightarrow>
      createRippleEffect win now dateNow x y options m = Inr (None, m) \<and>
      createSparkleEffect win now dateNow r x y options m = Inr ([], m) \<and>
      em_createClickEffect win now dateNow r x y clickOpts m =
        Inr (\<lparr> ripple = None, sparkles = [] \<rparr>, m)) \<and>
   (x \<noteq> JUndefined \<and> y \<noteq> JUndefined \<and>
    ((\<forall>a. x \<noteq> JNum (Fin a)) \<or> (\<forall>b. y \<noteq> JNum (Fin b)) \<or>
     (\<exists>a. x = JNum (Fin a) \<and> (a < 0 \<or> innerWidth win * 2 < a)) \<or>
     (\<exists>b. y = JNum (Fin b) \<and> (b < 0 \<or> innerHeight win * 2 < b))) \<longrightarrow>
      createRippleEffect win now dateNow x y options m = Inr (None, m) \<and>
      createSparkleEffect win now dateNow r x y options m = Inr ([], m) \<and>
      em_createClickEffect win now dateNow r x y clickOpts m =
        Inr (\<lparr> ripple = None, sparkles = [] \<rparr>, m)) \<and>
   (mes_reducedMotion s \<longrightarrow>
      createMagicalTrail now r cx cy s = s \<and> createClickEffect r cx cy s = s \<and>
      createHoverEffect r rect s = s \<and> createAmbientSparkle win r s = s) \<and>
   (ss_reducedMotion ss \<longrightarrow> ss_onClick now r ss = ss)"
proof (intro conjI impI)
  assume rejected: "em_reducedMotion m \<or>
    \<not> em_isValidPosition win (fst (fst (effectPosition win x y m)))
        (snd (fst (effectPosition win x y m)))"
  show "createRippleEffect win now dateNow x y options m = Inr (None, m)"
    using rejected by (rule createRippleEffect_rejected)
  show "createSparkleEffect win now dateNow r x y options m = Inr ([], m)"
    using rejected by (rule createSparkleEffect_rejected)
  show "em_createClickEffect win now dateNow r x y clickOpts m =
        Inr (\<lparr> ripple = None, sparkles = [] \<rparr>, m)"
    using rejected by (rule em_createClickEffect_rejected)
next
  assume bad: "x \<noteq> JUndefined \<and> y \<noteq> JUndefined \<and>
    ((\<forall>a. x \<noteq> JNum (Fin a)) \<or> (\<forall>b. y \<noteq> JNum (Fin b)) \<or>
     (\<exists>a. x = JNum (Fin a) \<and> (a < 0 \<or> innerWidth win * 2 < a)) \<or>
     (\<exists>b. y = JNum (Fin b) \<and> (b < 0 \<or> innerHeight win * 2 < b)))"
  then have "fst (effectPosition win x y m) = (x, y)"
    by (simp add: effectPosition_given)
  moreover from bad have "\<not> em_isValidPosition win x y"
    unfolding em_isValidPosition_iff by auto
  ultimately have rejected: "em_reducedMotion m \<or>
    \<not> em_isValidPosition win (fst (fst (effectPosition win x y m)))
        (snd (fst (effectPosition win x y m)))"
    by simp
  show "createRippleEffect win now dateNow x y options m = Inr (None, m)"
    using rejected by (rule createRippleEffect_rejected)
  show "createSparkleEffect win now dateNow r x y options m = Inr ([], m)"
    using rejected by (rule createSparkleEffect_rejected)
  show "em_createClickEffect win now dateNow r x y clickOpts m =
        Inr (\<lparr> ripple = None, sparkles = [] \<rparr>, m)"
    using rejected by (rule em_createClickEffect_rejected)
next
  assume red: "mes_reducedMotion s"
  show "createMagicalTrail now r cx cy s = s" "createClickEffect r cx cy s = s"
    "createHoverEffect r rect s = s" "createAmbientSparkle win r s = s"
    using red by (rule magical_emitters_reduced)+
next
  assume "ss_reducedMotion ss"
  then show "ss_onClick now r ss = ss"
    by (simp add: ss_onClick_def)
qed

text \<open>Sparkles at (NaN, 50) and a ripple at (-5, 50) on a fresh manager with a tracker, and
  a click on a MagicalEffectsSystem and on a ScreenSparklesSystem with motion reduced.\<close>
theorem rejected_emitter_calls_change_nothing_witness:
  "\<not> em_isValidPosition \<lparr> innerWidth = 1280, innerHeight = 720 \<rparr> (JNum NaN) (JNum (Fin 50)) \<and>
   createSparkleEffect \<lparr> innerWidth = 1280, innerHeight = 720 \<rparr> 16 16 (\<lambda>_. 1 / 2)
       (JNum NaN) (JNum (Fin 50))
       \<lparr> opt_duration = None, opt_maxRadius = None, opt_color = None, opt_lineWidth = None,
         opt_count = None, opt_distance = None, opt_size = None \<rparr>
       (EffectManager (Some CursorTracker) False 0 0)
     = Inr ([], EffectManager (Some CursorTracker) False 0 0) \<and>
   createRippleEffect \<lparr> innerWidth = 1280, innerHeight = 720 \<rparr> 16 16
       (JNum (Fin (- 5))) (JNum (Fin 50))
       \<lparr> opt_duration = None, opt_maxRadius = None, opt_color = None, opt_lineWidth = None,
         opt_count = None, opt_distance = None, opt_size = None \<rparr>
       (EffectManager (Some CursorTracker) False 0 0)
     = Inr (None, EffectManager (Some CursorTracker) False 0 0) \<and>
   mes_reducedMotion (MagicalEffectsSystem True) \<and>
   createClickEffect (\<lambda>_. 1 / 2) (Fin 100) (Fin 100) (MagicalEffectsSystem True)
     = MagicalEffectsSystem True \<and>
   ss_reducedMotion (ScreenSparklesSystem \<lparr> innerWidth = 1280, innerHeight = 720 \<rparr> True 0
      (\<lambda>_. 1 / 2) (\<lambda>_. (0, 0))) \<and>
   ss_onClick 16 (\<lambda>_. 1 / 2)
      (ScreenSparklesSystem \<lparr> innerWidth = 1280, innerHeight = 720 \<rparr> True 0 (\<lambda>_. 1 / 2) (\<lambda>_. (0, 0)))
     = ScreenSparklesSystem \<lparr> innerWidth = 1280, innerHeight = 720 \<rparr> True 0 (\<lambda>_. 1 / 2) (\<lambda>_. (0, 0))"
  using rejected_emitter_calls_change_nothing
    [of "EffectManager (Some CursorTracker) False 0 0"
        "\<lparr> innerWidth = 1280, innerHeight = 720 \<rparr>" "JNum NaN" "JNum (Fin 50)" 16 16
        "\<lparr> opt_duration = None, opt_maxRadius = None, opt_color = None, opt_lineWidth = None,
         opt_count = None, opt_distance = None, opt_size = None \<rparr>"
        "\<lambda>_. 1 / 2" _ "MagicalEffectsSystem True" "Fin 100" "Fin 100" _
        "ScreenSparklesSystem \<lparr> innerWidth = 1280, innerHeight = 720 \<rparr> True 0 (\<lambda>_. 1 / 2) (\<lambda>_. (0, 0))"]
    rejected_emitter_calls_change_nothing
    [of "EffectManager (Some CursorTracker) False 0 0"
        "\<lparr> innerWidth = 1280, innerHeight = 720 \<rparr>" "JNum (Fin (- 5))" "JNum (Fin 50)" 16 16
        "\<lparr> opt_duration = None, opt_maxRadius = None, opt_color = None, opt_lineWidth = None,
         opt_count = None, opt_distance = None, opt_size = None \<rparr>"
        "\<lambda>_. 1 / 2" _ "MagicalEffectsSystem True" "Fin 100" "Fin 100"]
  by (simp add: em_isValidPosition_def MagicalEffectsSystem_def ScreenSparklesSystem_def
      createSparkles_def ss_animate_def)


section \<open>Reduced motion\<close>

lemma manager_emitters_reduced:
  assumes "em_reducedMotion m"
  shows "createRippleEffect win now dateNow x y options m = Inr (None, m)"
    "createSparkleEffect win now dateNow r x y options m = Inr ([], m)"
    "em_createClickEffect win now dateNow r x y clickOpts m =
       Inr (\<lparr> ripple = None, sparkles = [] \<rparr>, m)"
  using assms
  by (simp_all add: createRippleEffect_rejected createSparkleEffect_rejected
      em_createClickEffect_rejected)

lemma particleLoop_length: "length (fst (particleLoop s todo r)) = todo"
  by (induction todo arbitrary: r) (simp_all add: case_prod_beta Let_def)

lemma createParticles_fields [simp]:
  "length (ps_particles (fst (createParticles r s))) = nat \<lceil>ps_particleCount s\<rceil>"
  "ps_particleCount (fst (createParticles r s)) = ps_particleCount s"
  "ps_reducedMotion (fst (createParticles r s)) = ps_reducedMotion s"
  "ps_optionsCount (fst (createParticles r s)) = ps_optionsCount s"
  by (simp_all add: createParticles_def case_prod_beta particleLoop_length)

lemma ps_animate_fields [simp]:
  "length (ps_particles (snd (ps_animate scrollY clock s))) = length (ps_particles s)"
  "ps_particleCount (snd (ps_animate scrollY clock s)) = ps_particleCount s"
  "ps_reducedMotion (snd (ps_animate scrollY clock s)) = ps_reducedMotion s"
  "ps_optionsCount (snd (ps_animate scrollY clock s)) = ps_optionsCount s"
  by (simp_all add: ps_animate_def Let_def)

lemma ParticleSystem_fields [simp]:
  "ps_particleCount (ParticleSystem win optionsCount optionsColors reduced r scrollY clock) =
     (if reduced then of_int \<lfloor>countOption optionsCount * 0.1\<rfloor> else countOption optionsCount)"
  "ps_reducedMotion (ParticleSystem win optionsCount optionsColors reduced r scrollY clock) = reduced"
  "ps_optionsCount (ParticleSystem win optionsCount optionsColors reduced r scrollY clock) =
     optionsCount"
  by (simp_all add: ParticleSystem_def Let_def case_prod_beta)

lemma ps_onMotionChange_reduced:
  "ps_reducedMotion (ps_onMotionChange True r s)"
  "length (ps_particles (ps_onMotionChange True r s)) =
     nat \<lceil>of_int \<lfloor>of_int \<lfloor>countOption (ps_optionsCount s) * 0.1\<rfloor> * 0.3 :: real\<rfloor> :: real\<rceil>"
  by (simp_all add: ps_onMotionChange_def ps_onMotionChange_constructor_def
      ps_onMotionChange_bindEvents_def Let_def case_prod_beta)

text \<open>
  Claim C3, as amended. In the MagicalEffectsSystem, the EffectManager and the
  ScreenSparklesSystem, a call of an emitter (mouse trail, click, hover, ambient sparkle,
  ripple, sparkle) made while the reduced-motion flag is set creates nothing and leaves
  the system as it was, and the listener of the preference, on a change into reduced
  motion, sets the flag and empties the list of the system. The ParticleSystem instead
  rebuilds its list with fewer particles, which it then draws without moving them.
\<close>
theorem reduced_motion_stops_emitters:
  "(mes_reducedMotion s \<longrightarrow>
      createMagicalTrail now r cx cy s = s \<and> createClickEffect r cx cy s = s \<and>
      createHoverEffect r rect s = s \<and> createAmbientSparkle win r s = s \<and>
      ambientInterval win r s = s) \<and>
   mes_reducedMotion (onMotionChange True s) \<and>
   mes_effects (onMotionChange True s) = [] \<and>
   (em_reducedMotion m \<longrightarrow>
      createRippleEffect win now dateNow x y options m = Inr (None, m) \<and>
      createSparkleEffect win now dateNow r x y options m = Inr ([], m) \<and>
      em_createClickEffect win now dateNow r x y clickOpts m =
        Inr (\<lparr> ripple = None, sparkles = [] \<rparr>, m)) \<and>
   em_reducedMotion (em_onMotionChange True m) \<and>
   em_activeEffects (em_onMotionChange True m) = [] \<and>
   (ss_reducedMotion ss \<longrightarrow> ss_onClick now r ss = ss) \<and>
   ss_reducedMotion (ss_onMotionChange True now r ss) \<and>
   ss_sparkleCount (ss_onMotionChange True now r ss) = 0 \<and>
   ss_sparkles (ss_onMotionChange True now r ss) = [] \<and>
   (ss_reducedMotion ss \<and> ss_sparkleCount ss = 0 \<longrightarrow>
      ss_sparkles (ss_onResize win now r ss) = [])"
proof (intro conjI impI)
  assume red: "mes_reducedMotion s"
  show "createMagicalTrail now r cx cy s = s" "createClickEffect r cx cy s = s"
    "createHoverEffect r rect s = s" "createAmbientSparkle win r s = s"
    "ambientInterval win r s = s"
    using red by (rule magical_emitters_reduced)+
next
  show "mes_reducedMotion (onMotionChange True s)" "mes_effects (onMotionChange True s) = []"
    by (simp_all add: onMotionChange_def)
next
  assume red: "em_reducedMotion m"
  show "createRippleEffect win now dateNow x y options m = Inr (None, m)"
    "createSparkleEffect win now dateNow r x y options m = Inr ([], m)"
    "em_createClickEffect win now dateNow r x y clickOpts m =
        Inr (\<lparr> ripple = None, sparkles = [] \<rparr>, m)"
    using red by (rule manager_emitters_reduced)+
next
  show "em_reducedMotion (em_onMotionChange True m)"
    "em_activeEffects (em_onMotionChange True m) = []"
    by (simp_all add: em_onMotionChange_def clearAllEffects_def)
next
  assume "ss_reducedMotion ss"
  then show "ss_onClick now r ss = ss"
    by (simp add: ss_onClick_def)
next
  show "ss_reducedMotion (ss_onMotionChange True now r ss)"
    "ss_sparkleCount (ss_onMotionChange True now r ss) = 0"
    "ss_sparkles (ss_onMotionChange True now r ss) = []"
    by (simp_all add: ss_onMotionChange_def createSparkles_def)
next
  assume "ss_reducedMotion ss \<and> ss_sparkleCount ss = 0"
  then show "ss_sparkles (ss_onResize win now r ss) = []"
    by (simp add: ss_onResize_def createSparkles_def)
qed

text \<open>A MagicalEffectsSystem holding the eight effects of a click, a manager and a
  ScreenSparklesSystem constructed under reduced motion.\<close>
theorem reduced_motion_stops_emitters_witness:
  "mes_reducedMotion (onMotionChange True
      (createClickEffect (\<lambda>_. 1 / 2) (Fin 100) (Fin 100) (MagicalEffectsSystem False))) \<and>
   mes_effects (onMotionChange True
      (createClickEffect (\<lambda>_. 1 / 2) (Fin 100) (Fin 100) (MagicalEffectsSystem False))) = [] \<and>
   createMagicalTrail 40 (\<lambda>_. 1 / 2) (Fin 100) (Fin 100) (onMotionChange True
      (createClickEffect (\<lambda>_. 1 / 2) (Fin 100) (Fin 100) (MagicalEffectsSystem False)))
     = onMotionChange True
      (createClickEffect (\<lambda>_. 1 / 2) (Fin 100) (Fin 100) (MagicalEffectsSystem False)) \<and>
   em_reducedMotion (EffectManager None True 0 0) \<and>
   createRippleEffect \<lparr> innerWidth = 1280, innerHeight = 720 \<rparr> 40 40
       (JNum (Fin 100)) (JNum (Fin 100))
       \<lparr> opt_duration = None, opt_maxRadius = None, opt_color = None, opt_lineWidth = None,
         opt_count = None, opt_distance = None, opt_size = None \<rparr>
       (EffectManager None True 0 0)
     = Inr (None, EffectManager None True 0 0) \<and>
   ss_reducedMotion (ScreenSparklesSystem \<lparr> innerWidth = 1280, innerHeight = 720 \<rparr> True 0
      (\<lambda>_. 1 / 2) (\<lambda>_. (0, 0))) \<and>
   ss_sparkleCount (ScreenSparklesSystem \<lparr> innerWidth = 1280, innerHeight = 720 \<rparr> True 0
      (\<lambda>_. 1 / 2) (\<lambda>_. (0, 0))) = 0 \<and>
   ss_sparkles (ss_onResize \<lparr> innerWidth = 1280, innerHeight = 720 \<rparr> 40 (\<lambda>_. 1 / 2)
      (ScreenSparklesSystem \<lparr> innerWidth = 1280, innerHeight = 720 \<rparr> True 0 (\<lambda>_. 1 / 2) (\<lambda>_. (0, 0)))) = []"
  using reduced_motion_stops_emitters
    [of "onMotionChange True
          (createClickEffect (\<lambda>_. 1 / 2) (Fin 100) (Fin 100) (MagicalEffectsSystem False))"
        40 "\<lambda>_. 1 / 2" "Fin 100" "Fin 100" _
        "\<lparr> innerWidth = 1280, innerHeight = 720 \<rparr>"
        "EffectManager None True 0 0" 40 "JNum (Fin 100)" "JNum (Fin 100)"
        "\<lparr> opt_duration = None, opt_maxRadius = None, opt_color = None, opt_lineWidth = None,
         opt_count = None, opt_distance = None, opt_size = None \<rparr>" _
        "ScreenSparklesSystem \<lparr> innerWidth = 1280, innerHeight = 720 \<rparr> True 0 (\<lambda>_. 1 / 2) (\<lambda>_. (0, 0))"]
    reduced_motion_stops_emitters
    [of "createClickEffect (\<lambda>_. 1 / 2) (Fin 100) (Fin 100) (MagicalEffectsSystem False)"]
  by (simp add: EffectManager_def updateEffects_def ScreenSparklesSystem_def
      createSparkles_def ss_animate_def Let_def)

text \<open>Claim C3 as stated fails for the ParticleSystem: with the default count of 50, the
  two listeners leave one newly created particle in the list after the change into
  reduced motion (the first sets the count to 5, the second to \<open>floor (5 * 0.3) = 1\<close>).\<close>
theorem particleSystem_reduced_motion_counterexample:
  "ps_reducedMotion (ps_onMotionChange True (\<lambda>_. 1 / 2)
      (ParticleSystem \<lparr> innerWidth = 1280, innerHeight = 720 \<rparr> None None False
         (\<lambda>_. 1 / 2) 0 (\<lambda>_. (0, 0)))) \<and>
   length (ps_particles (ps_onMotionChange True (\<lambda>_. 1 / 2)
      (ParticleSystem \<lparr> innerWidth = 1280, innerHeight = 720 \<rparr> None None False
         (\<lambda>_. 1 / 2) 0 (\<lambda>_. (0, 0))))) = 1"
  by (simp add: ps_onMotionChange_reduced countOption_def count_or_def)

end
